theory Spec2Isabelle
  imports Complex_Main
begin

section \<open>Values of type double\<close>

text \<open>
  The planner computes on C++ \<open>double\<close>. A double is modelled as an exact real number
  or one of the three special values of IEEE 754 arithmetic. Rounding and the sign of
  zero are not modelled; what is modelled is what the planner's control flow depends on:
  comparisons involving NaN are false, and a division by zero yields an infinity or
  NaN instead of stopping the program.
\<close>

datatype double = Fin real | PInf | NInf | NaN


text \<open>\<open>a < b\<close> on doubles.\<close>

fun dless :: "double \<Rightarrow> double \<Rightarrow> bool" where
  "dless (Fin a) (Fin b) = (a < b)"
| "dless (Fin a) PInf = True"
| "dless NInf (Fin b) = True"
| "dless NInf PInf = True"
| "dless _ _ = False"

text \<open>\<open>a == b\<close> on doubles.\<close>

fun deq :: "double \<Rightarrow> double \<Rightarrow> bool" where
  "deq (Fin a) (Fin b) = (a = b)"
| "deq PInf PInf = True"
| "deq NInf NInf = True"
| "deq _ _ = False"

text \<open>\<open>a <= b\<close> on doubles (used to state bounds, not by the source).\<close>

definition dle :: "double \<Rightarrow> double \<Rightarrow> bool" where
  "dle a b = (dless a b \<or> deq a b)"

fun dneg :: "double \<Rightarrow> double" where
  "dneg (Fin a) = Fin (- a)"
| "dneg PInf = NInf"
| "dneg NInf = PInf"
| "dneg NaN = NaN"

fun dadd :: "double \<Rightarrow> double \<Rightarrow> double" where
  "dadd (Fin a) (Fin b) = Fin (a + b)"
| "dadd NaN _ = NaN"
| "dadd _ NaN = NaN"
| "dadd PInf NInf = NaN"
| "dadd NInf PInf = NaN"
| "dadd PInf _ = PInf"
| "dadd _ PInf = PInf"
| "dadd NInf _ = NInf"
| "dadd _ NInf = NInf"

definition dsub :: "double \<Rightarrow> double \<Rightarrow> double" where
  "dsub a b = dadd a (dneg b)"

fun dmul :: "double \<Rightarrow> double \<Rightarrow> double" where
  "dmul (Fin a) (Fin b) = Fin (a * b)"
| "dmul NaN _ = NaN"
| "dmul _ NaN = NaN"
| "dmul (Fin a) PInf = (if 0 < a then PInf else if a < 0 then NInf else NaN)"
| "dmul (Fin a) NInf = (if 0 < a then NInf else if a < 0 then PInf else NaN)"
| "dmul PInf (Fin b) = (if 0 < b then PInf else if b < 0 then NInf else NaN)"
| "dmul NInf (Fin b) = (if 0 < b then NInf else if b < 0 then PInf else NaN)"
| "dmul PInf PInf = PInf"
| "dmul PInf NInf = NInf"
| "dmul NInf PInf = NInf"
| "dmul NInf NInf = PInf"

text \<open>
  Division. A finite nonzero value divided by zero is an infinity, zero divided by zero
  is NaN; the program goes on with that value.
\<close>

fun ddiv :: "double \<Rightarrow> double \<Rightarrow> double" where
  "ddiv (Fin a) (Fin b) =
     (if b \<noteq> 0 then Fin (a / b) else if 0 < a then PInf else if a < 0 then NInf else NaN)"
| "ddiv NaN _ = NaN"
| "ddiv _ NaN = NaN"
| "ddiv (Fin a) PInf = Fin 0"
| "ddiv (Fin a) NInf = Fin 0"
| "ddiv PInf (Fin b) = (if 0 \<le> b then PInf else NInf)"
| "ddiv NInf (Fin b) = (if 0 \<le> b then NInf else PInf)"
| "ddiv PInf PInf = NaN"
| "ddiv PInf NInf = NaN"
| "ddiv NInf PInf = NaN"
| "ddiv NInf NInf = NaN"

fun dabs :: "double \<Rightarrow> double" where
  "dabs (Fin a) = Fin \<bar>a\<bar>"
| "dabs PInf = PInf"
| "dabs NInf = PInf"
| "dabs NaN = NaN"

fun dsqrt :: "double \<Rightarrow> double" where
  "dsqrt (Fin a) = (if 0 \<le> a then Fin (sqrt a) else NaN)"
| "dsqrt PInf = PInf"
| "dsqrt NInf = NaN"
| "dsqrt NaN = NaN"

fun dcos :: "double \<Rightarrow> double" where
  "dcos (Fin a) = Fin (cos a)"
| "dcos _ = NaN"

fun dsin :: "double \<Rightarrow> double" where
  "dsin (Fin a) = Fin (sin a)"
| "dsin _ = NaN"

fun dtan :: "double \<Rightarrow> double" where
  "dtan (Fin a) = Fin (tan a)"
| "dtan _ = NaN"

text \<open>The two-argument arc tangent of the C library, first on reals.\<close>

definition atan2 :: "real \<Rightarrow> real \<Rightarrow> real" where
  "atan2 b a =
     (if 0 < a then arctan (b / a)
      else if a < 0 then (if 0 \<le> b then arctan (b / a) + pi else arctan (b / a) - pi)
      else if 0 < b then pi / 2
      else if b < 0 then - (pi / 2)
      else 0)"

fun datan2 :: "double \<Rightarrow> double \<Rightarrow> double" where
  "datan2 (Fin b) (Fin a) = Fin (atan2 b a)"
| "datan2 NaN _ = NaN"
| "datan2 _ NaN = NaN"
| "datan2 (Fin b) PInf = Fin 0"
| "datan2 (Fin b) NInf = (if 0 \<le> b then Fin pi else Fin (- pi))"
| "datan2 PInf (Fin a) = Fin (pi / 2)"
| "datan2 NInf (Fin a) = Fin (- (pi / 2))"
| "datan2 PInf PInf = Fin (pi / 4)"
| "datan2 PInf NInf = Fin (3 * pi / 4)"
| "datan2 NInf PInf = Fin (- (pi / 4))"
| "datan2 NInf NInf = Fin (- (3 * pi / 4))"

text \<open>
  \<open>std::min(a, b)\<close> is \<open>(b < a) ? b : a\<close> and \<open>std::max(a, b)\<close> is
  \<open>(a < b) ? b : a\<close>.
\<close>

definition std_min :: "double \<Rightarrow> double \<Rightarrow> double" where
  "std_min a b = (if dless b a then b else a)"

definition std_max :: "double \<Rightarrow> double \<Rightarrow> double" where
  "std_max a b = (if dless a b then b else a)"

text \<open>\<open>std::numeric_limits<double>::max()\<close>, the largest finite double.\<close>

definition DBL_MAX :: double where
  "DBL_MAX = Fin ((2 - 1 / 2 ^ 52) * 2 ^ 1023)"

text \<open>
  \<open>std::max_element\<close> over a non-empty range: the first greatest element under
  \<open><\<close>.
\<close>

fun max_element_from :: "double \<Rightarrow> double list \<Rightarrow> double" where
  "max_element_from largest [] = largest"
| "max_element_from largest (c # cs) =
     (if dless largest c then max_element_from c cs else max_element_from largest cs)"

section \<open>Data model\<close>

text \<open>
  The containers the planner reads and writes. Types declared outside this source file
  (vehicle state, route, map, traffic participants, piecewise polynomials) are given the
  fields and queries that the source file uses.
\<close>

record VehicleStateDynamic =
  x :: double
  y :: double
  yaw_angle :: double
  vx :: double
  steering_angle :: double
  steering_rate :: double
  ax :: double
  yaw_rate :: double
  time :: double

text \<open>A default-constructed vehicle state, before any field is assigned.\<close>

definition new_VehicleStateDynamic :: VehicleStateDynamic where
  "new_VehicleStateDynamic =
     \<lparr>x = Fin 0, y = Fin 0, yaw_angle = Fin 0, vx = Fin 0, steering_angle = Fin 0,
      steering_rate = Fin 0, ax = Fin 0, yaw_rate = Fin 0, time = Fin 0\<rparr>"

record Trajectory =
  states :: "VehicleStateDynamic list"

text \<open>A default-constructed trajectory has no samples.\<close>

definition new_Trajectory :: Trajectory where
  "new_Trajectory = \<lparr>states = []\<rparr>"

record Point2d =
  x :: double
  y :: double

record MapPoint =
  x :: double
  y :: double
  s :: double
  parent_id :: nat

record Lane =
  get_width :: "double \<Rightarrow> double"

record QuadTree =
  get_nearest_point :: "VehicleStateDynamic \<Rightarrow> double \<Rightarrow> MapPoint option"

record Map =
  quadtree :: QuadTree
  get_lane_speed_limit :: "nat \<Rightarrow> double"
  lanes :: "nat \<rightharpoonup> Lane"

text \<open>
  A route: the centre-lane samples in the order the source iterates them (key, point),
  and the route's queries. \<open>get_s\<close> is overloaded in the source for a vehicle state
  and for a point.
\<close>

record Route =
  center_lane :: "(double \<times> MapPoint) list"
  get_s :: "VehicleStateDynamic \<Rightarrow> double"
  get_s_point :: "Point2d \<Rightarrow> double"
  get_pose_at_s :: "double \<Rightarrow> Point2d"
  get_map_point_at_s :: "double \<Rightarrow> MapPoint"
  get_length :: double

record TrafficParticipant =
  state :: VehicleStateDynamic

record TrafficParticipantSet =
  participants :: "(nat \<times> TrafficParticipant) list"

record PiecewisePolynomial =
  breaks :: "double list"
  coef :: "double list list"

text \<open>A default-constructed piecewise polynomial has no breakpoints.\<close>

definition new_PiecewisePolynomial :: PiecewisePolynomial where
  "new_PiecewisePolynomial = \<lparr>breaks = [], coef = []\<rparr>"

record route_to_piecewise_polynomial =
  x :: PiecewisePolynomial
  y :: PiecewisePolynomial
  heading :: PiecewisePolynomial

definition new_route_to_piecewise_polynomial :: route_to_piecewise_polynomial where
  "new_route_to_piecewise_polynomial =
     \<lparr>x = new_PiecewisePolynomial, y = new_PiecewisePolynomial,
      heading = new_PiecewisePolynomial\<rparr>"

text \<open>The member \<open>route_to_follow\<close>: the kept samples of the current cycle.\<close>

record RouteToFollow =
  s :: "double list"
  x :: "double list"
  y :: "double list"
  psi :: "double list"

text \<open>The channels of the state vector and of the input vector.\<close>

datatype STATES = X | Y | PSI | V | DELTA | dDELTA | S | L

datatype CONTROLS = ddDELTA

definition state_size :: nat where
  "state_size = 8"

text \<open>The value of an enumerator, as used to index the flat solver output.\<close>

fun index_of :: "STATES \<Rightarrow> nat" where
  "index_of X = 0"
| "index_of Y = 1"
| "index_of PSI = 2"
| "index_of V = 3"
| "index_of DELTA = 4"
| "index_of dDELTA = 5"
| "index_of S = 6"
| "index_of L = 7"

type_synonym state_vector = "STATES \<Rightarrow> double"
type_synonym input_vector = "CONTROLS \<Rightarrow> double"

text \<open>
  The constants and tunable members of the planner that are declared in the header:
  they are parameters of the model. \<open>control_points\<close> is the number of horizon samples,
  \<open>sim_time\<close> the horizon length in seconds.
\<close>

record planner_config =
  control_points :: nat
  sim_time :: double
  wheelbase :: double
  lateral_weight :: double
  heading_weight :: double
  maximum_velocity :: double
  min_distance_to_vehicle_ahead :: double
  max_forward_speed :: double
  max_reverse_speed :: double
  max_steering_angle :: double
  max_steering_velocity :: double
  max_steering_acceleration :: double
  threshold_bad_output :: double
  min_distance_in_route :: double
  position_smoothing_factor :: double
  heading_smoothing_factor :: double
  lookahead_time :: double
  safe_index :: int
  lateral_acceleration :: double
  minimum_velocity_in_curve :: double
  desired_time_headway :: double
  front_vehicle_velocity :: double
  max_acceleration :: double
  max_deceleration :: double

text \<open>The solver options assigned by \<open>set_parameters\<close>.\<close>

record solver_options =
  intermediateIntegration :: nat
  OptiNLC_ACC :: double
  maxNumberOfIteration :: nat
  OSQP_verbose :: bool
  OSQP_max_iter :: nat
  OptiNLC_time_limit :: double
  perturbation :: double
  timeStep :: double
  debugPrint :: bool

definition set_parameters_options :: "planner_config \<Rightarrow> solver_options" where
  "set_parameters_options cfg =
     \<lparr>intermediateIntegration = 2,
      OptiNLC_ACC = Fin (1 / 10 ^ 4),
      maxNumberOfIteration = 500,
      OSQP_verbose = False,
      OSQP_max_iter = 500,
      OptiNLC_time_limit = Fin (9 / 100),
      perturbation = Fin (1 / 10 ^ 6),
      timeStep = ddiv (sim_time cfg) (Fin (real (control_points cfg))),
      debugPrint = False\<rparr>"

text \<open>
  The optimal control problem handed to the solver: the callbacks that the three
  \<open>setup_\<close> functions install.
\<close>

record OptiNLC_OCP =
  ocp_options :: solver_options
  inputUpdate :: "state_vector \<Rightarrow> input_vector \<Rightarrow> input_vector"
  stateLowerBounds :: "state_vector \<Rightarrow> input_vector \<Rightarrow> state_vector"
  stateUpperBounds :: "state_vector \<Rightarrow> input_vector \<Rightarrow> state_vector"
  inputLowerBounds :: "state_vector \<Rightarrow> input_vector \<Rightarrow> input_vector"
  inputUpperBounds :: "state_vector \<Rightarrow> input_vector \<Rightarrow> input_vector"
  functionConstraints :: "state_vector \<Rightarrow> input_vector \<Rightarrow> nat \<Rightarrow> double"
  functionConstraintsLowerBounds :: "state_vector \<Rightarrow> input_vector \<Rightarrow> nat \<Rightarrow> double"
  functionConstraintsUpperBounds :: "state_vector \<Rightarrow> input_vector \<Rightarrow> nat \<Rightarrow> double"
  dynamicModel :: "state_vector \<Rightarrow> input_vector \<Rightarrow> state_vector"
  objectiveFunction :: "state_vector \<Rightarrow> input_vector \<Rightarrow> double"

text \<open>
  What the source reads from the solver after \<open>solve\<close>: the flat vector of optimal
  states (sample \<open>i\<close>, channel \<open>c\<close> at \<open>i * state_size + c\<close>), the sample times and
  the final objective value. The vectors have a fixed size, so they are functions of
  the index.
\<close>

record solver_result =
  get_optimal_states :: "nat \<Rightarrow> double"
  getTime :: "nat \<Rightarrow> double"
  get_final_objective_function :: double

text \<open>
  The collaborators outside this repository: the piecewise-polynomial utility \<open>pp\<close>,
  the solver and the geometry helper. Their behaviour is a parameter of the model.
\<close>

record collaborators =
  CubicSplineSmoother ::
    "double list \<Rightarrow> double list \<Rightarrow> double list \<Rightarrow> double \<Rightarrow> PiecewisePolynomial"
  CubicSplineEvaluation ::
    "double list \<Rightarrow> PiecewisePolynomial \<Rightarrow> double list \<times> double list"
  findIndex :: "double \<Rightarrow> PiecewisePolynomial \<Rightarrow> int"
  splineEvaluation :: "int \<Rightarrow> double \<Rightarrow> PiecewisePolynomial \<Rightarrow> double"
  solve :: "OptiNLC_OCP \<Rightarrow> double \<Rightarrow> state_vector \<Rightarrow> input_vector \<Rightarrow> solver_result"
  distance_2d :: "Point2d \<Rightarrow> Point2d \<Rightarrow> double"

text \<open>
  The readings of \<open>std::chrono::high_resolution_clock::now()\<close> that one planning cycle
  takes, in seconds: two in the reference builder, two in \<open>plan_trajectory\<close>.
\<close>

record clock_readings =
  builder_start_time :: double
  builder_end_time :: double
  plan_start_time :: double
  plan_end_time :: double

text \<open>
  The members of the planner that persist from one call to the next. The member \<open>tau\<close>
  is left out: every evaluation of the dynamic model assigns it before reading it, so its
  value between calls is never observed.
\<close>

record planner =
  previous_trajectory :: Trajectory
  bad_counter :: int
  bad_condition :: bool
  reference_velocity :: double
  route_x :: PiecewisePolynomial
  route_y :: PiecewisePolynomial
  route_heading :: PiecewisePolynomial
  route_to_follow :: RouteToFollow
  distance_to_goal :: double

text \<open>
  What the model returns where the source has no defined result: a read or write outside
  a container (\<open>UndefinedBehaviour\<close>), and the exception thrown by \<open>lanes.at\<close> for a
  lane that the map does not have (\<open>OutOfRange\<close>).
\<close>

datatype fault = UndefinedBehaviour | OutOfRange

section \<open>The reference builder\<close>

text \<open>
  The loop of \<open>setup_optimizer_parameters_using_route\<close> over the centre-lane samples.
  A sample behind the vehicle is skipped, the first sample beyond the required length
  ends the loop, and a sample is kept when its progress exceeds the last kept progress
  by more than 0.75. The accumulator holds \<open>route_to_follow\<close> and the weights \<open>w\<close>.
\<close>

fun downsample ::
  "double \<Rightarrow> double \<Rightarrow> double \<Rightarrow> (double \<times> MapPoint) list \<Rightarrow>
   RouteToFollow \<times> double list \<Rightarrow> RouteToFollow \<times> double list" where
  "downsample state_s maximum_required_road_length previous_s [] acc = acc"
| "downsample state_s maximum_required_road_length previous_s ((sk, point) # rest) acc =
     (if dless sk state_s
      then downsample state_s maximum_required_road_length previous_s rest acc
      else if dless maximum_required_road_length (dsub sk state_s)
      then acc
      else
        (let local_progress = dsub sk state_s in
         if dless (Fin (75 / 100)) (dsub local_progress previous_s)
         then downsample state_s maximum_required_road_length local_progress rest
                (fst acc\<lparr>RouteToFollow.s := RouteToFollow.s (fst acc) @ [local_progress],
                          RouteToFollow.x := RouteToFollow.x (fst acc) @ [MapPoint.x point],
                          RouteToFollow.y := RouteToFollow.y (fst acc) @ [MapPoint.y point]\<rparr>,
                 snd acc @ [Fin 1])
         else downsample state_s maximum_required_road_length previous_s rest acc))"

text \<open>
  The loop that derives the heading samples, for \<open>i\<close> from 0 while
  \<open>n > 0 && i < n - 1\<close>, with \<open>n\<close> the number of kept samples. The result is a
  fault when \<open>dx[i]\<close> or \<open>dy[i]\<close> is read outside the vector, otherwise the heading
  samples pushed so far and whether the loop ran to its end (\<open>False\<close>: the source
  returns from inside the loop).
\<close>

function heading_samples ::
  "double list \<Rightarrow> double list \<Rightarrow> nat \<Rightarrow> nat \<Rightarrow> double list \<Rightarrow> fault + (bool \<times> double list)" where
  "heading_samples dx dy n i acc =
     (if 0 < n \<and> i < n - 1
      then
        (if length dx \<le> i then Inl UndefinedBehaviour
         else if deq (dx ! i) (Fin 0) \<or> length dx < 1 \<or> length dy < 1 then Inr (False, acc)
         else if length dy \<le> i then Inl UndefinedBehaviour
         else heading_samples dx dy n (i + 1) (acc @ [datan2 (dy ! i) (dx ! i)]))
      else Inr (True, acc))"
  by pat_completeness auto
termination
  by (relation "measure (\<lambda>(dx, dy, n, i, acc). n - i)") auto

declare heading_samples.simps [simp del]

text \<open>
  \<open>setup_optimizer_parameters_using_route\<close>. It returns the reference path and the
  planner with \<open>route_to_follow\<close> updated. After the heading loop the source assigns
  \<open>psi[n - 1] = psi[n - 2]\<close>, with \<open>n\<close> the number of kept samples; an index
  outside the vector \<open>psi\<close> is a fault there as everywhere. The two clock readings are
  taken where the source takes them; their difference is computed and not used.
\<close>

definition setup_optimizer_parameters_using_route ::
  "planner_config \<Rightarrow> collaborators \<Rightarrow> clock_readings \<Rightarrow> planner \<Rightarrow> Route \<Rightarrow>
   VehicleStateDynamic \<Rightarrow> fault + (route_to_piecewise_polynomial \<times> planner)" where
  "setup_optimizer_parameters_using_route cfg pp clock this latest_route current_state =
     (let start_time = builder_start_time clock;
          route = new_route_to_piecewise_polynomial;
          maximum_required_road_length = dmul (sim_time cfg) (max_forward_speed cfg)
      in
      if dless maximum_required_road_length (min_distance_in_route cfg) then Inr (route, this)
      else if center_lane latest_route = [] then Inr (route, this)
      else
        (let state_s = get_s latest_route current_state;
             cleared = \<lparr>RouteToFollow.s = [], RouteToFollow.x = [], RouteToFollow.y = [],
                        psi = []\<rparr>;
             kept = downsample state_s maximum_required_road_length (Fin 0)
                      (center_lane latest_route) (cleared, []);
             rtf = fst kept;
             w = snd kept
         in
         if length (RouteToFollow.s rtf) < 3
         then Inr (route, this\<lparr>route_to_follow := rtf\<rparr>)
         else
           (let rtf0 = rtf\<lparr>RouteToFollow.s := (RouteToFollow.s rtf)[0 := Fin 0]\<rparr>;
                route1 = route
                  \<lparr>route_to_piecewise_polynomial.x :=
                     CubicSplineSmoother pp (RouteToFollow.s rtf0) (RouteToFollow.x rtf0) w
                       (position_smoothing_factor cfg),
                   route_to_piecewise_polynomial.y :=
                     CubicSplineSmoother pp (RouteToFollow.s rtf0) (RouteToFollow.y rtf0) w
                       (position_smoothing_factor cfg)\<rparr>;
                dx = snd (CubicSplineEvaluation pp (RouteToFollow.s rtf0)
                            (route_to_piecewise_polynomial.x route1));
                dy = snd (CubicSplineEvaluation pp (RouteToFollow.s rtf0)
                            (route_to_piecewise_polynomial.y route1))
            in
            case heading_samples dx dy (length (RouteToFollow.s rtf0)) 0 [] of
              Inl f \<Rightarrow> Inl f
            | Inr (False, headings) \<Rightarrow>
                Inr (route1, this\<lparr>route_to_follow := rtf0\<lparr>psi := headings\<rparr>\<rparr>)
            | Inr (True, headings) \<Rightarrow>
                (let n = length (RouteToFollow.s rtf0) in
                 if length headings \<le> n - 1 \<or> length headings \<le> n - 2
                 then Inl UndefinedBehaviour
                 else
                   (let rtf1 = rtf0\<lparr>psi := headings[n - 1 := headings ! (n - 2)]\<rparr>;
                        route2 = route1
                          \<lparr>heading :=
                             CubicSplineSmoother pp (RouteToFollow.s rtf1) (psi rtf1) w
                               (heading_smoothing_factor cfg)\<rparr>;
                        end_time = builder_end_time clock;
                        elapsed_seconds = dsub end_time start_time
                    in Inr (route2, this\<lparr>route_to_follow := rtf1\<rparr>))))))"

definition setup_reference_route :: "route_to_piecewise_polynomial \<Rightarrow> planner \<Rightarrow> planner" where
  "setup_reference_route reference_route this =
     this\<lparr>route_x := route_to_piecewise_polynomial.x reference_route,
          route_y := route_to_piecewise_polynomial.y reference_route,
          route_heading := heading reference_route\<rparr>"

section \<open>The car-following bound\<close>

text \<open>
  The loop of \<open>calculate_idm_velocity\<close> over the traffic participants: the least
  ego-relative distance of a participant within its lane. \<open>lanes.at\<close> throws when the
  map has no lane with the identifier of the participant's map point.
\<close>

fun nearest_participant ::
  "collaborators \<Rightarrow> Route \<Rightarrow> Map \<Rightarrow> double \<Rightarrow> (nat \<times> TrafficParticipant) list \<Rightarrow>
   double \<Rightarrow> fault + double" where
  "nearest_participant pp latest_route latest_map state_s [] distance_to_object_min =
     Inr distance_to_object_min"
| "nearest_participant pp latest_route latest_map state_s ((ident, participant) # rest)
     distance_to_object_min =
     (let object_position =
            \<lparr>Point2d.x = VehicleStateDynamic.x (state participant),
             Point2d.y = VehicleStateDynamic.y (state participant)\<rparr>;
          distance_to_object = get_s_point latest_route object_position;
          offset = distance_2d pp object_position
                     (get_pose_at_s latest_route distance_to_object);
          map_point = get_map_point_at_s latest_route distance_to_object
      in
      case lanes latest_map (parent_id map_point) of
        None \<Rightarrow> Inl OutOfRange
      | Some lane \<Rightarrow>
          (let within_lane = dless offset (get_width lane (MapPoint.s map_point));
               distance_to_object' = dsub distance_to_object state_s
           in
           if within_lane \<and> dless distance_to_object' distance_to_object_min
           then nearest_participant pp latest_route latest_map state_s rest
                  distance_to_object'
           else nearest_participant pp latest_route latest_map state_s rest
                  distance_to_object_min))"

text \<open>
  The locals of \<open>calculate_idm_velocity\<close> after the loop, as functions of the least
  participant distance \<open>distance_to_object_min\<close>.
\<close>

definition goal_distance :: "Route \<Rightarrow> VehicleStateDynamic \<Rightarrow> double" where
  "goal_distance latest_route current_state =
     dsub (get_length latest_route) (get_s latest_route current_state)"

definition distance_for_idm :: "Route \<Rightarrow> VehicleStateDynamic \<Rightarrow> double \<Rightarrow> double" where
  "distance_for_idm latest_route current_state distance_to_object_min =
     std_min distance_to_object_min (goal_distance latest_route current_state)"

definition s_star ::
  "planner_config \<Rightarrow> Route \<Rightarrow> VehicleStateDynamic \<Rightarrow> double \<Rightarrow> double" where
  "s_star cfg latest_route current_state distance_to_object_min =
     (let distance_to_maintain_ahead =
            (if dless (goal_distance latest_route current_state) distance_to_object_min
             then ddiv (wheelbase cfg) (Fin 2)
             else min_distance_to_vehicle_ahead cfg)
      in
      dadd
        (dadd distance_to_maintain_ahead (dmul (vx current_state) (desired_time_headway cfg)))
        (ddiv
           (dmul (vx current_state) (dsub (vx current_state) (front_vehicle_velocity cfg)))
           (dmul (Fin 2) (dsqrt (dmul (max_acceleration cfg) (max_deceleration cfg))))))"

text \<open>The quotient \<open>s_star / distance_for_idm\<close>, computed without any test of the divisor.\<close>

definition idm_gap_ratio ::
  "planner_config \<Rightarrow> Route \<Rightarrow> VehicleStateDynamic \<Rightarrow> double \<Rightarrow> double" where
  "idm_gap_ratio cfg latest_route current_state distance_to_object_min =
     ddiv (s_star cfg latest_route current_state distance_to_object_min)
          (distance_for_idm latest_route current_state distance_to_object_min)"

definition idm_velocity_from ::
  "planner_config \<Rightarrow> Route \<Rightarrow> VehicleStateDynamic \<Rightarrow> double \<Rightarrow> double" where
  "idm_velocity_from cfg latest_route current_state distance_to_object_min =
     (let velocity_ratio = ddiv (vx current_state) (maximum_velocity cfg);
          ratio = idm_gap_ratio cfg latest_route current_state distance_to_object_min;
          idm_velocity =
            dadd (vx current_state)
              (dmul (max_acceleration cfg)
                 (dsub
                    (dsub (Fin 1)
                       (dmul (dmul (dmul velocity_ratio velocity_ratio) velocity_ratio)
                          velocity_ratio))
                    (dmul ratio ratio)))
      in std_max (Fin 0) (std_min idm_velocity (max_forward_speed cfg)))"

text \<open>
  \<open>calculate_idm_velocity\<close>: the bound, and the planner with the member
  \<open>distance_to_goal\<close> assigned.
\<close>

definition calculate_idm_velocity ::
  "planner_config \<Rightarrow> collaborators \<Rightarrow> planner \<Rightarrow> Route \<Rightarrow> VehicleStateDynamic \<Rightarrow> Map \<Rightarrow>
   TrafficParticipantSet \<Rightarrow> fault + (double \<times> planner)" where
  "calculate_idm_velocity cfg pp this latest_route current_state latest_map
     traffic_participants =
     (let state_s = get_s latest_route current_state in
      case nearest_participant pp latest_route latest_map state_s
             (participants traffic_participants) DBL_MAX of
        Inl f \<Rightarrow> Inl f
      | Inr distance_to_object_min \<Rightarrow>
          Inr (idm_velocity_from cfg latest_route current_state distance_to_object_min,
               this\<lparr>distance_to_goal := goal_distance latest_route current_state\<rparr>))"

section \<open>The reference velocity\<close>

text \<open>
  The curvature loop of \<open>setup_reference_velocity\<close>, for \<open>i\<close> from 0 while
  \<open>i < index\<close>. Reading \<open>dpsi[i]\<close> or \<open>s[i + 1]\<close> outside its vector is a fault.
\<close>

function curvature_samples ::
  "double list \<Rightarrow> double list \<Rightarrow> int \<Rightarrow> nat \<Rightarrow> double list \<Rightarrow> fault + double list" where
  "curvature_samples dpsi ss index i acc =
     (if int i < index
      then
        (if length dpsi \<le> i \<or> length ss \<le> i + 1 then Inl UndefinedBehaviour
         else curvature_samples dpsi ss index (i + 1)
                (acc @ [dabs (ddiv (dpsi ! i) (dsub (ss ! (i + 1)) (ss ! i)))]))
      else Inr acc)"
  by pat_completeness auto
termination
  by (relation "measure (\<lambda>(dpsi, ss, index, i, acc). nat index - i)") auto

declare curvature_samples.simps [simp del]

text \<open>
  The curvature-limited velocity: \<open>sqrt(lateral_acceleration / max_curvature)\<close>,
  floored at \<open>minimum_velocity_in_curve\<close>.
\<close>

definition curvature_velocity :: "planner_config \<Rightarrow> double \<Rightarrow> double" where
  "curvature_velocity cfg max_curvature =
     std_max (dsqrt (ddiv (lateral_acceleration cfg) max_curvature))
       (minimum_velocity_in_curve cfg)"

text \<open>
  The greatest curvature over the samples up to the lookahead index. Dereferencing
  \<open>std::max_element\<close> of an empty vector is a fault.
\<close>

definition max_curvature_of ::
  "planner_config \<Rightarrow> collaborators \<Rightarrow> planner \<Rightarrow> VehicleStateDynamic \<Rightarrow> fault + double" where
  "max_curvature_of cfg pp this current_state =
     (let index0 = findIndex pp (dmul (lookahead_time cfg) (vx current_state)) (route_x this);
          index = max index0 (safe_index cfg);
          dpsi = snd (CubicSplineEvaluation pp (RouteToFollow.s (route_to_follow this))
                        (route_heading this))
      in
      case curvature_samples dpsi (RouteToFollow.s (route_to_follow this)) index 0 [] of
        Inl f \<Rightarrow> Inl f
      | Inr [] \<Rightarrow> Inl UndefinedBehaviour
      | Inr (c # cs) \<Rightarrow> Inr (max_element_from c cs))"

text \<open>\<open>setup_reference_velocity\<close>: the planner with \<open>reference_velocity\<close> assigned.\<close>

definition setup_reference_velocity ::
  "planner_config \<Rightarrow> collaborators \<Rightarrow> planner \<Rightarrow> Route \<Rightarrow> VehicleStateDynamic \<Rightarrow> Map \<Rightarrow>
   TrafficParticipantSet \<Rightarrow> fault + planner" where
  "setup_reference_velocity cfg pp this latest_route current_state latest_map
     traffic_participants =
     (let this1 = this\<lparr>reference_velocity := maximum_velocity cfg\<rparr> in
      case max_curvature_of cfg pp this1 current_state of
        Inl f \<Rightarrow> Inl f
      | Inr max_curvature \<Rightarrow>
          (let this2 = this1\<lparr>reference_velocity :=
                 std_min (reference_velocity this1) (curvature_velocity cfg max_curvature)\<rparr>
           in
           case calculate_idm_velocity cfg pp this2 latest_route current_state latest_map
                  traffic_participants of
             Inl f \<Rightarrow> Inl f
           | Inr (idm_velocity, this3) \<Rightarrow>
               (let this4 = this3\<lparr>reference_velocity :=
                      std_min (reference_velocity this3) idm_velocity\<rparr>;
                    min_dist = DBL_MAX
                in
                case get_nearest_point (quadtree latest_map) current_state min_dist of
                  None \<Rightarrow> Inr this4
                | Some nearest \<Rightarrow>
                    (let current_route_point_max_speed =
                           get_lane_speed_limit latest_map (parent_id nearest)
                     in Inr (this4\<lparr>reference_velocity :=
                               std_min (reference_velocity this4)
                                 current_route_point_max_speed\<rparr>)))))"

section \<open>The optimal control problem\<close>

text \<open>
  The derivative function installed by \<open>setup_dynamic_model\<close>. The lambda captures the
  planner by reference: it reads \<open>reference_velocity\<close> and the three route splines.
\<close>

definition dynamic_model ::
  "planner_config \<Rightarrow> collaborators \<Rightarrow> planner \<Rightarrow> state_vector \<Rightarrow> input_vector \<Rightarrow> state_vector" where
  "dynamic_model cfg pp this st input =
     (let tau = (if dless (Fin 0) (dsub (reference_velocity this) (st V))
                 then Fin (25 / 10) else Fin (125 / 100));
          index = findIndex pp (st S) (route_x this);
          reference_x = splineEvaluation pp index (st S) (route_x this);
          reference_y = splineEvaluation pp index (st S) (route_y this);
          reference_heading = splineEvaluation pp index (st S) (route_heading this);
          dx = dsub (st X) reference_x;
          dy = dsub (st Y) reference_y;
          cos_yaw = dcos reference_heading;
          sin_yaw = dsin reference_heading;
          lateral_cost0 = dadd (dmul (dneg dx) sin_yaw) (dmul dy cos_yaw);
          lateral_cost = dmul lateral_cost0 (dmul lateral_cost0 (lateral_weight cfg));
          heading_cost0 =
            datan2
              (dadd (dmul (dneg sin_yaw) (dcos (st PSI))) (dmul cos_yaw (dsin (st PSI))))
              (dadd (dmul cos_yaw (dcos (st PSI))) (dmul sin_yaw (dsin (st PSI))));
          heading_cost = dmul heading_cost0 (dmul heading_cost0 (heading_weight cfg))
      in
      (\<lambda>channel. case channel of
         X \<Rightarrow> dmul (st V) (dcos (st PSI))
       | Y \<Rightarrow> dmul (st V) (dsin (st PSI))
       | PSI \<Rightarrow> ddiv (dmul (st V) (dtan (st DELTA))) (wheelbase cfg)
       | V \<Rightarrow> dmul (ddiv (Fin 1) tau) (dsub (reference_velocity this) (st V))
       | DELTA \<Rightarrow> st dDELTA
       | dDELTA \<Rightarrow> input ddDELTA
       | S \<Rightarrow> st V
       | L \<Rightarrow> dadd lateral_cost heading_cost))"

definition setup_dynamic_model ::
  "planner_config \<Rightarrow> collaborators \<Rightarrow> planner \<Rightarrow> OptiNLC_OCP \<Rightarrow> OptiNLC_OCP" where
  "setup_dynamic_model cfg pp this ocp = ocp\<lparr>dynamicModel := dynamic_model cfg pp this\<rparr>"

definition setup_objective_function :: "OptiNLC_OCP \<Rightarrow> OptiNLC_OCP" where
  "setup_objective_function ocp = ocp\<lparr>objectiveFunction := (\<lambda>st input. st L)\<rparr>"

definition setup_constraints :: "planner_config \<Rightarrow> OptiNLC_OCP \<Rightarrow> OptiNLC_OCP" where
  "setup_constraints cfg ocp =
     ocp\<lparr>inputUpdate := (\<lambda>st input. (\<lambda>channel. input ddDELTA)),
         stateLowerBounds := (\<lambda>st input.
           ((\<lambda>channel. NInf)
              (V := max_reverse_speed cfg,
               DELTA := dneg (max_steering_angle cfg),
               dDELTA := dneg (max_steering_velocity cfg)))),
         stateUpperBounds := (\<lambda>st input.
           ((\<lambda>channel. PInf)
              (V := max_forward_speed cfg,
               DELTA := max_steering_angle cfg,
               dDELTA := max_steering_velocity cfg))),
         inputLowerBounds := (\<lambda>st input. (\<lambda>channel. dneg (max_steering_acceleration cfg))),
         inputUpperBounds := (\<lambda>st input. (\<lambda>channel. max_steering_acceleration cfg)),
         functionConstraints := (\<lambda>st input k. Fin 0),
         functionConstraintsLowerBounds := (\<lambda>st input k. NInf),
         functionConstraintsUpperBounds := (\<lambda>st input k. PInf)\<rparr>"

text \<open>
  The problem as constructed from the options, before the callbacks are installed; every
  callback is replaced by one of the three \<open>setup_\<close> functions.
\<close>

definition new_OptiNLC_OCP :: "solver_options \<Rightarrow> OptiNLC_OCP" where
  "new_OptiNLC_OCP opts =
     \<lparr>ocp_options = opts,
      inputUpdate = (\<lambda>st input. input),
      stateLowerBounds = (\<lambda>st input channel. NInf),
      stateUpperBounds = (\<lambda>st input channel. PInf),
      inputLowerBounds = (\<lambda>st input channel. NInf),
      inputUpperBounds = (\<lambda>st input channel. PInf),
      functionConstraints = (\<lambda>st input k. Fin 0),
      functionConstraintsLowerBounds = (\<lambda>st input k. NInf),
      functionConstraintsUpperBounds = (\<lambda>st input k. PInf),
      dynamicModel = (\<lambda>st input channel. Fin 0),
      objectiveFunction = (\<lambda>st input. Fin 0)\<rparr>"

section \<open>Validation, extraction and fallback\<close>

text \<open>
  The test of one horizon sample in the validation loop of \<open>plan_trajectory\<close>.
\<close>

definition sample_is_bad :: "planner_config \<Rightarrow> solver_result \<Rightarrow> nat \<Rightarrow> bool" where
  "sample_is_bad cfg sol i =
     (let opt_x = get_optimal_states sol;
          last_objective_function = get_final_objective_function sol
      in
      dless (threshold_bad_output cfg) last_objective_function
      \<or> dless (max_forward_speed cfg) (opt_x (i * state_size + index_of V))
      \<or> dless (opt_x (i * state_size + index_of V)) (max_reverse_speed cfg)
      \<or> dless (max_steering_velocity cfg) (dabs (opt_x (i * state_size + index_of dDELTA))))"

text \<open>
  The validation loop, for \<open>i\<close> from 0 while \<open>i < control_points\<close>: the first bad
  sample sets \<open>bad_condition\<close>, adds one to \<open>bad_counter\<close> and ends the loop.
\<close>

function validate :: "planner_config \<Rightarrow> solver_result \<Rightarrow> nat \<Rightarrow> planner \<Rightarrow> planner" where
  "validate cfg sol i this =
     (if i < control_points cfg
      then
        (if sample_is_bad cfg sol i
         then this\<lparr>bad_condition := True, bad_counter := bad_counter this + 1\<rparr>
         else validate cfg sol (i + 1) this)
      else this)"
  by pat_completeness auto
termination
  by (relation "measure (\<lambda>(cfg, sol, i, this). control_points cfg - i)") auto

declare validate.simps [simp del]

text \<open>The sample \<open>i\<close> of the planned trajectory, as the extraction loop fills it.\<close>

definition extract_state :: "planner_config \<Rightarrow> solver_result \<Rightarrow> nat \<Rightarrow> VehicleStateDynamic" where
  "extract_state cfg sol i =
     (let opt_x = get_optimal_states sol;
          dt = timeStep (set_parameters_options cfg);
          st = new_VehicleStateDynamic
            \<lparr>VehicleStateDynamic.x := opt_x (i * state_size + index_of X),
             VehicleStateDynamic.y := opt_x (i * state_size + index_of Y),
             yaw_angle := opt_x (i * state_size + index_of PSI),
             vx := opt_x (i * state_size + index_of V),
             steering_angle := opt_x (i * state_size + index_of DELTA),
             steering_rate := opt_x (i * state_size + index_of dDELTA),
             time := getTime sol i\<rparr>
      in
      if int i < int (control_points cfg) - 1
      then st\<lparr>yaw_rate :=
                ddiv (dsub (opt_x ((i + 1) * state_size + index_of PSI))
                           (opt_x (i * state_size + index_of PSI))) dt,
              ax :=
                ddiv (dsub (opt_x ((i + 1) * state_size + index_of V))
                           (opt_x (i * state_size + index_of V))) dt\<rparr>
      else st)"

function extract_states ::
  "planner_config \<Rightarrow> solver_result \<Rightarrow> nat \<Rightarrow> VehicleStateDynamic list \<Rightarrow> VehicleStateDynamic list" where
  "extract_states cfg sol i acc =
     (if i < control_points cfg
      then extract_states cfg sol (i + 1) (acc @ [extract_state cfg sol i])
      else acc)"
  by pat_completeness auto
termination
  by (relation "measure (\<lambda>(cfg, sol, i, acc). control_points cfg - i)") auto

declare extract_states.simps [simp del]

text \<open>
  The planned trajectory: the extraction loop, then the last sample's yaw rate and
  acceleration copied from the sample before it. With fewer than two control points
  the two assignments index outside the vector.
\<close>

definition planned_trajectory :: "planner_config \<Rightarrow> solver_result \<Rightarrow> fault + Trajectory" where
  "planned_trajectory cfg sol =
     (let sts = extract_states cfg sol 0 [];
          n = control_points cfg
      in
      if n < 2 then Inl UndefinedBehaviour
      else
        (let sts1 = sts[n - 1 := (sts ! (n - 1))\<lparr>yaw_rate := yaw_rate (sts ! (n - 2))\<rparr>];
             sts2 = sts1[n - 1 := (sts1 ! (n - 1))\<lparr>ax := ax (sts1 ! (n - 2))\<rparr>]
         in Inr \<lparr>states = sts2\<rparr>))"

text \<open>
  The part of \<open>plan_trajectory\<close> after the solver has returned: reset of the counter,
  validation, extraction, and the choice between the planned and the previous
  trajectory. The two clock readings of \<open>plan_trajectory\<close> are its arguments; their
  difference is computed and not used.
\<close>

definition accept_or_fall_back ::
  "planner_config \<Rightarrow> double \<Rightarrow> double \<Rightarrow> planner \<Rightarrow> solver_result \<Rightarrow>
   fault + (Trajectory \<times> planner)" where
  "accept_or_fall_back cfg start_time end_time this sol =
     (let this1 = this\<lparr>bad_condition := False\<rparr>;
          this2 = (if 4 < bad_counter this1 then this1\<lparr>bad_counter := 0\<rparr> else this1);
          this3 = validate cfg sol 0 this2
      in
      case planned_trajectory cfg sol of
        Inl f \<Rightarrow> Inl f
      | Inr planned \<Rightarrow>
          (let elapsed_seconds = dsub end_time start_time in
           if bad_condition this3 = False \<and> bad_counter this3 < 5
           then Inr (planned, this3\<lparr>previous_trajectory := planned, bad_counter := 0\<rparr>)
           else Inr (previous_trajectory this3, this3)))"

section \<open>The planning cycle\<close>

text \<open>The initial state and input that \<open>plan_trajectory\<close> hands to the solver.\<close>

definition initial_state :: "VehicleStateDynamic \<Rightarrow> state_vector" where
  "initial_state current_state =
     (\<lambda>channel. case channel of
        X \<Rightarrow> VehicleStateDynamic.x current_state
      | Y \<Rightarrow> VehicleStateDynamic.y current_state
      | PSI \<Rightarrow> yaw_angle current_state
      | V \<Rightarrow> vx current_state
      | DELTA \<Rightarrow> steering_angle current_state
      | dDELTA \<Rightarrow> Fin 0
      | S \<Rightarrow> Fin 0
      | L \<Rightarrow> Fin 0)"

definition initial_input :: input_vector where
  "initial_input = (\<lambda>channel. Fin 0)"

text \<open>
  The first part of \<open>plan_trajectory\<close>: the reference path is built and stored; without
  breakpoints in \<open>route_x\<close> there is no route (\<open>False\<close>), otherwise the reference
  velocity is set up (\<open>True\<close>).
\<close>

definition prepare_cycle ::
  "planner_config \<Rightarrow> collaborators \<Rightarrow> clock_readings \<Rightarrow> planner \<Rightarrow> Route \<Rightarrow>
   VehicleStateDynamic \<Rightarrow> Map \<Rightarrow> TrafficParticipantSet \<Rightarrow> fault + (planner \<times> bool)" where
  "prepare_cycle cfg pp clock this latest_route current_state latest_map traffic_participants =
     (case setup_optimizer_parameters_using_route cfg pp clock this latest_route current_state of
        Inl f \<Rightarrow> Inl f
      | Inr (reference_route, this1) \<Rightarrow>
          (let this2 = setup_reference_route reference_route this1 in
           if length (breaks (route_x this2)) < 1 then Inr (this2, False)
           else
             (case setup_reference_velocity cfg pp this2 latest_route current_state latest_map
                     traffic_participants of
                Inl f \<Rightarrow> Inl f
              | Inr this3 \<Rightarrow> Inr (this3, True))))"

text \<open>The problem that is handed to the solver, and the solver's answer.\<close>

definition build_ocp :: "planner_config \<Rightarrow> collaborators \<Rightarrow> planner \<Rightarrow> OptiNLC_OCP" where
  "build_ocp cfg pp this =
     setup_constraints cfg
       (setup_objective_function
          (setup_dynamic_model cfg pp this (new_OptiNLC_OCP (set_parameters_options cfg))))"

definition solution ::
  "planner_config \<Rightarrow> collaborators \<Rightarrow> planner \<Rightarrow> VehicleStateDynamic \<Rightarrow> solver_result" where
  "solution cfg pp this current_state =
     solve pp (build_ocp cfg pp this) (time current_state) (initial_state current_state)
       initial_input"

text \<open>
  \<open>plan_trajectory\<close>: the returned trajectory and the planner after the call.
\<close>

definition plan_trajectory ::
  "planner_config \<Rightarrow> collaborators \<Rightarrow> clock_readings \<Rightarrow> planner \<Rightarrow> Route \<Rightarrow>
   VehicleStateDynamic \<Rightarrow> Map \<Rightarrow> TrafficParticipantSet \<Rightarrow> fault + (Trajectory \<times> planner)" where
  "plan_trajectory cfg pp clock this latest_route current_state latest_map traffic_participants =
     (case prepare_cycle cfg pp clock this latest_route current_state latest_map
             traffic_participants of
        Inl f \<Rightarrow> Inl f
      | Inr (this1, False) \<Rightarrow> Inr (new_Trajectory, this1)
      | Inr (this1, True) \<Rightarrow>
          accept_or_fall_back cfg (plan_start_time clock) (plan_end_time clock) this1
            (solution cfg pp this1 current_state))"

text \<open>
  Modelled from the spec: the initial values of the members are declared in the header,
  which is not among the sources. A planner that has not accepted a trajectory yet stores
  the default-constructed, empty trajectory (the stored trajectory is the last accepted
  output) and has counted no failure (the counter counts consecutive failures). Every
  other member is assigned in a cycle before it is read.
\<close>

definition new_planner :: planner where
  "new_planner =
     \<lparr>previous_trajectory = new_Trajectory,
      bad_counter = 0,
      bad_condition = False,
      reference_velocity = Fin 0,
      route_x = new_PiecewisePolynomial,
      route_y = new_PiecewisePolynomial,
      route_heading = new_PiecewisePolynomial,
      route_to_follow = \<lparr>RouteToFollow.s = [], RouteToFollow.x = [], RouteToFollow.y = [],
                         psi = []\<rparr>,
      distance_to_goal = Fin 0\<rparr>"

text \<open>
  A sequence of planning cycles on one planner: the inputs of each call, and the
  trajectories returned in order with the planner after the last call.
\<close>

record cycle_input =
  cycle_clock :: clock_readings
  cycle_route :: Route
  cycle_state :: VehicleStateDynamic
  cycle_map :: Map
  cycle_participants :: TrafficParticipantSet

definition plan_cycle ::
  "planner_config \<Rightarrow> collaborators \<Rightarrow> planner \<Rightarrow> cycle_input \<Rightarrow> fault + (Trajectory \<times> planner)" where
  "plan_cycle cfg pp this inp =
     plan_trajectory cfg pp (cycle_clock inp) this (cycle_route inp) (cycle_state inp)
       (cycle_map inp) (cycle_participants inp)"

fun run_cycles ::
  "planner_config \<Rightarrow> collaborators \<Rightarrow> planner \<Rightarrow> cycle_input list \<Rightarrow>
   fault + (Trajectory list \<times> planner)" where
  "run_cycles cfg pp this [] = Inr ([], this)"
| "run_cycles cfg pp this (inp # inps) =
     (case plan_cycle cfg pp this inp of
        Inl f \<Rightarrow> Inl f
      | Inr (trajectory, this1) \<Rightarrow>
          (case run_cycles cfg pp this1 inps of
             Inl f \<Rightarrow> Inl f
           | Inr (trajectories, this2) \<Rightarrow> Inr (trajectory # trajectories, this2)))"

section \<open>Notions of the specification\<close>

text \<open>
  A solver result is classified bad when the final objective is above the bad-output
  threshold, or the velocity of some horizon sample is outside
  \<open>[max_reverse_speed, max_forward_speed]\<close>, or the magnitude of the steering rate of
  some horizon sample is above \<open>max_steering_velocity\<close>.
\<close>

definition classified_bad :: "planner_config \<Rightarrow> solver_result \<Rightarrow> bool" where
  "classified_bad cfg sol =
     (dless (threshold_bad_output cfg) (get_final_objective_function sol)
      \<or> list_ex (\<lambda>i. dless (max_forward_speed cfg)
                        (get_optimal_states sol (i * state_size + index_of V))
                    \<or> dless (get_optimal_states sol (i * state_size + index_of V))
                        (max_reverse_speed cfg))
           [0..<control_points cfg]
      \<or> list_ex (\<lambda>i. dless (max_steering_velocity cfg)
                        (dabs (get_optimal_states sol (i * state_size + index_of dDELTA))))
           [0..<control_points cfg])"

text \<open>
  The solver result of a cycle that found a route: a cycle is bad when that result is
  classified bad.
\<close>

definition bad_cycle :: "planner_config \<Rightarrow> collaborators \<Rightarrow> planner \<Rightarrow> cycle_input \<Rightarrow> bool" where
  "bad_cycle cfg pp this inp =
     (case prepare_cycle cfg pp (cycle_clock inp) this (cycle_route inp) (cycle_state inp)
             (cycle_map inp) (cycle_participants inp) of
        Inr (this1, True) \<Rightarrow> classified_bad cfg (solution cfg pp this1 (cycle_state inp))
      | _ \<Rightarrow> False)"

text \<open>Every cycle of the sequence is bad, each on the planner that the cycles before it left.\<close>

fun consecutive_bad ::
  "planner_config \<Rightarrow> collaborators \<Rightarrow> planner \<Rightarrow> cycle_input list \<Rightarrow> bool" where
  "consecutive_bad cfg pp this [] = True"
| "consecutive_bad cfg pp this (inp # inps) =
     (bad_cycle cfg pp this inp \<and>
      (case plan_cycle cfg pp this inp of
         Inl f \<Rightarrow> False
       | Inr (trajectory, this1) \<Rightarrow> consecutive_bad cfg pp this1 inps))"

text \<open>
  The progress values that the builder keeps for a route and a vehicle state, before the
  first is set to 0.
\<close>

definition kept_samples :: "planner_config \<Rightarrow> Route \<Rightarrow> VehicleStateDynamic \<Rightarrow> double list" where
  "kept_samples cfg latest_route current_state =
     RouteToFollow.s
       (fst (downsample (get_s latest_route current_state)
               (dmul (sim_time cfg) (max_forward_speed cfg)) (Fin 0)
               (center_lane latest_route)
               (\<lparr>RouteToFollow.s = [], RouteToFollow.x = [], RouteToFollow.y = [], psi = []\<rparr>,
                [])))"

text \<open>\<open>b\<close> exceeds \<open>a\<close> by more than 0.75, as the builder tests it.\<close>

definition apart :: "double \<Rightarrow> double \<Rightarrow> bool" where
  "apart a b = dless (Fin (75 / 100)) (dsub b a)"



text \<open>
  The last sample of the planned trajectory: extracted like the others, then given the
  yaw rate and the acceleration of the sample before it.
\<close>

definition final_state :: "planner_config \<Rightarrow> solver_result \<Rightarrow> VehicleStateDynamic" where
  "final_state cfg sol =
     (extract_state cfg sol (control_points cfg - 1))
       \<lparr>yaw_rate := yaw_rate (extract_state cfg sol (control_points cfg - 2)),
        ax := ax (extract_state cfg sol (control_points cfg - 2))\<rparr>"



text \<open>
  The derivative function as the specification gives it: the kinematic bicycle, the
  first-order velocity tracking with the asymmetric time constant, and the tracking cost
  from the lateral error and the heading error against the reference path at the
  state's progress.
\<close>

definition spec_tau :: "double \<Rightarrow> double \<Rightarrow> double" where
  "spec_tau reference v =
     (if dless (Fin 0) (dsub reference v) then Fin (25 / 10) else Fin (125 / 100))"

definition reference_heading_at :: "collaborators \<Rightarrow> planner \<Rightarrow> double \<Rightarrow> double" where
  "reference_heading_at pp this progress =
     splineEvaluation pp (findIndex pp progress (route_x this)) progress (route_heading this)"

text \<open>
  The lateral error: the offset of the position from the reference point, measured
  across the reference heading.
\<close>

definition lateral_error :: "collaborators \<Rightarrow> planner \<Rightarrow> state_vector \<Rightarrow> double" where
  "lateral_error pp this st =
     (let index = findIndex pp (st S) (route_x this);
          h = reference_heading_at pp this (st S)
      in
      dadd (dmul (dneg (dsub (st X) (splineEvaluation pp index (st S) (route_x this))))
              (dsin h))
           (dmul (dsub (st Y) (splineEvaluation pp index (st S) (route_y this))) (dcos h)))"

text \<open>The heading error: the heading minus the reference heading, wrapped by \<open>atan2\<close>.\<close>

definition heading_error :: "collaborators \<Rightarrow> planner \<Rightarrow> state_vector \<Rightarrow> double" where
  "heading_error pp this st =
     (let e = dsub (st PSI) (reference_heading_at pp this (st S)) in datan2 (dsin e) (dcos e))"

definition weighted_square :: "double \<Rightarrow> double \<Rightarrow> double" where
  "weighted_square e weight = dmul (dmul e e) weight"

definition spec_derivative ::
  "planner_config \<Rightarrow> collaborators \<Rightarrow> planner \<Rightarrow> state_vector \<Rightarrow> input_vector \<Rightarrow> state_vector" where
  "spec_derivative cfg pp this st input =
     (\<lambda>channel. case channel of
        X \<Rightarrow> dmul (st V) (dcos (st PSI))
      | Y \<Rightarrow> dmul (st V) (dsin (st PSI))
      | PSI \<Rightarrow> ddiv (dmul (st V) (dtan (st DELTA))) (wheelbase cfg)
      | V \<Rightarrow> ddiv (dsub (reference_velocity this) (st V))
                (spec_tau (reference_velocity this) (st V))
      | DELTA \<Rightarrow> st dDELTA
      | dDELTA \<Rightarrow> input ddDELTA
      | S \<Rightarrow> st V
      | L \<Rightarrow> dadd (weighted_square (lateral_error pp this st) (lateral_weight cfg))
                (weighted_square (heading_error pp this st) (heading_weight cfg)))"

text \<open>
  The bounds that enter the reference velocity: the configured maximum, the
  curvature-limited velocity, the car-following bound, and the speed limit of the lane of
  the nearest map point when there is one.
\<close>

definition velocity_bounds ::
  "planner_config \<Rightarrow> double \<Rightarrow> double \<Rightarrow> Map \<Rightarrow> VehicleStateDynamic \<Rightarrow> double list" where
  "velocity_bounds cfg max_curvature idm_velocity latest_map current_state =
     [maximum_velocity cfg, curvature_velocity cfg max_curvature, idm_velocity]
     @ (case get_nearest_point (quadtree latest_map) current_state DBL_MAX of
          None \<Rightarrow> []
        | Some nearest \<Rightarrow> [get_lane_speed_limit latest_map (parent_id nearest)])"

definition minimum_of :: "double \<Rightarrow> double list \<Rightarrow> bool" where
  "minimum_of v bounds = (v \<in> set bounds \<and> list_all (dle v) bounds)"

section \<open>A worked example\<close>

text \<open>
  A small configuration, a straight route of six samples one unit apart, a map without
  lanes and no traffic, used to evaluate the model on concrete inputs. The stand-ins for
  the collaborators are deliberately simple: the spline utility keeps the samples as
  breakpoints and reports a derivative of 1 everywhere, and the solver answers with the
  current time in every channel of every sample, so that a vehicle state with a large
  timestamp produces a result with an out-of-bound velocity.
\<close>

definition example_config :: planner_config where
  "example_config =
     \<lparr>control_points = 2, sim_time = Fin 3, wheelbase = Fin 2, lateral_weight = Fin 1,
      heading_weight = Fin 1, maximum_velocity = Fin 5,
      min_distance_to_vehicle_ahead = Fin 10, max_forward_speed = Fin 10,
      max_reverse_speed = Fin (- 2), max_steering_angle = Fin 1,
      max_steering_velocity = Fin 1, max_steering_acceleration = Fin 1,
      threshold_bad_output = Fin 1000, min_distance_in_route = Fin 5,
      position_smoothing_factor = Fin 1, heading_smoothing_factor = Fin 1,
      lookahead_time = Fin 1, safe_index = 1, lateral_acceleration = Fin 2,
      minimum_velocity_in_curve = Fin 1, desired_time_headway = Fin 1,
      front_vehicle_velocity = Fin 0, max_acceleration = Fin 2, max_deceleration = Fin 2\<rparr>"

definition example_solver ::
  "OptiNLC_OCP \<Rightarrow> double \<Rightarrow> state_vector \<Rightarrow> input_vector \<Rightarrow> solver_result" where
  "example_solver ocp t st input =
     \<lparr>get_optimal_states = (\<lambda>k. t),
      getTime = (\<lambda>i. dadd t (dmul (Fin (real i)) (timeStep (ocp_options ocp)))),
      get_final_objective_function = Fin 0\<rparr>"

definition example_collaborators :: collaborators where
  "example_collaborators =
     \<lparr>CubicSplineSmoother = (\<lambda>ss vs w factor. \<lparr>breaks = ss, coef = [vs]\<rparr>),
      CubicSplineEvaluation = (\<lambda>ss spline. (ss, map (\<lambda>v. Fin 1) ss)),
      findIndex = (\<lambda>progress spline. 0),
      splineEvaluation = (\<lambda>index progress spline. Fin 0),
      solve = example_solver,
      distance_2d = (\<lambda>p q. Fin 0)\<rparr>"

definition example_point :: "real \<Rightarrow> MapPoint" where
  "example_point a = \<lparr>MapPoint.x = Fin a, MapPoint.y = Fin 0, MapPoint.s = Fin a, parent_id = 0\<rparr>"

definition example_route :: Route where
  "example_route =
     \<lparr>center_lane = map (\<lambda>a. (Fin a, example_point a)) [0, 1, 2, 3, 4, 5],
      get_s = (\<lambda>st. Fin 0),
      get_s_point = (\<lambda>p. Fin 0),
      get_pose_at_s = (\<lambda>a. \<lparr>Point2d.x = a, Point2d.y = Fin 0\<rparr>),
      get_map_point_at_s = (\<lambda>a. example_point 0),
      get_length = Fin 5\<rparr>"

definition example_map :: Map where
  "example_map =
     \<lparr>quadtree = \<lparr>get_nearest_point = (\<lambda>st min_dist. None)\<rparr>,
      get_lane_speed_limit = (\<lambda>lane. Fin 30),
      lanes = Map.empty\<rparr>"

definition example_clock :: clock_readings where
  "example_clock =
     \<lparr>builder_start_time = Fin 0, builder_end_time = Fin 1, plan_start_time = Fin 0,
      plan_end_time = Fin 2\<rparr>"

text \<open>The vehicle at the start of the route, standing, at time \<open>t\<close>.\<close>

definition example_state :: "real \<Rightarrow> VehicleStateDynamic" where
  "example_state t = new_VehicleStateDynamic\<lparr>time := Fin t\<rparr>"

text \<open>
  A second route, running north along the y-axis, and a stand-in for the spline
  evaluation that reads the fitted samples back: the value at a sample is the stored
  value, the derivative is the slope towards the next sample, and both are 0 where the
  spline has no sample. On this route the x-coordinate is constant, so the derivative of
  the x-spline is 0 at the first sample and the builder returns from inside its heading
  loop, with the x- and y-splines fitted and no heading spline.
\<close>

definition linear_evaluation :: "double list \<Rightarrow> PiecewisePolynomial \<Rightarrow> double list \<times> double list" where
  "linear_evaluation ss spline =
     (let vs = (case coef spline of [] \<Rightarrow> [] | row # rows \<Rightarrow> row);
          bs = breaks spline
      in
      (map (\<lambda>i. if i < length vs then vs ! i else Fin 0) [0..<length ss],
       map (\<lambda>i. if i + 1 < length vs \<and> i + 1 < length bs
                 then ddiv (dsub (vs ! (i + 1)) (vs ! i)) (dsub (bs ! (i + 1)) (bs ! i))
                 else Fin 0)
         [0..<length ss]))"

definition linear_collaborators :: collaborators where
  "linear_collaborators = example_collaborators\<lparr>CubicSplineEvaluation := linear_evaluation\<rparr>"

definition north_point :: "real \<Rightarrow> MapPoint" where
  "north_point a = \<lparr>MapPoint.x = Fin 0, MapPoint.y = Fin a, MapPoint.s = Fin a, parent_id = 0\<rparr>"

definition north_route :: Route where
  "north_route =
     \<lparr>center_lane = map (\<lambda>a. (Fin a, north_point a)) [0, 1, 2, 3, 4, 5],
      get_s = (\<lambda>st. Fin 0),
      get_s_point = (\<lambda>p. Fin 0),
      get_pose_at_s = (\<lambda>a. \<lparr>Point2d.x = Fin 0, Point2d.y = a\<rparr>),
      get_map_point_at_s = (\<lambda>a. north_point 0),
      get_length = Fin 5\<rparr>"

definition north_input :: "VehicleStateDynamic \<Rightarrow> cycle_input" where
  "north_input st =
     \<lparr>cycle_clock = example_clock, cycle_route = north_route, cycle_state = st,
      cycle_map = example_map, cycle_participants = \<lparr>participants = []\<rparr>\<rparr>"

text \<open>
  The planner after the first part of a cycle on the north route: the kept samples with
  the first progress set to 0, the x- and y-splines, the default heading spline, the
  distance to the goal and the reference velocity.
\<close>

definition north_prepared :: "planner \<Rightarrow> planner" where
  "north_prepared this =
     this\<lparr>route_to_follow :=
            \<lparr>RouteToFollow.s = [Fin 0, Fin 2, Fin 3, Fin 4, Fin 5],
             RouteToFollow.x = [Fin 0, Fin 0, Fin 0, Fin 0, Fin 0],
             RouteToFollow.y = [Fin 1, Fin 2, Fin 3, Fin 4, Fin 5],
             psi = []\<rparr>,
          route_x := \<lparr>breaks = [Fin 0, Fin 2, Fin 3, Fin 4, Fin 5],
                      coef = [[Fin 0, Fin 0, Fin 0, Fin 0, Fin 0]]\<rparr>,
          route_y := \<lparr>breaks = [Fin 0, Fin 2, Fin 3, Fin 4, Fin 5],
                      coef = [[Fin 1, Fin 2, Fin 3, Fin 4, Fin 5]]\<rparr>,
          route_heading := new_PiecewisePolynomial,
          distance_to_goal := Fin 5,
          reference_velocity := Fin (48 / 25)\<rparr>"

text \<open>
  The trajectory that the example solver's answer for a standing vehicle at time 0 is
  extracted to, and the planner that has accepted it in its first cycle on the north
  route.
\<close>

definition example_stored :: Trajectory where
  "example_stored =
     \<lparr>states = [new_VehicleStateDynamic, new_VehicleStateDynamic\<lparr>time := Fin (3 / 2)\<rparr>]\<rparr>"

definition north_accepted :: planner where
  "north_accepted = (north_prepared new_planner)\<lparr>previous_trajectory := example_stored\<rparr>"

section \<open>Properties of validation and extraction\<close>

lemma validate_eq:
  "validate cfg sol i this =
     (if \<exists>j. i \<le> j \<and> j < control_points cfg \<and> sample_is_bad cfg sol j
      then this\<lparr>bad_condition := True, bad_counter := bad_counter this + 1\<rparr>
      else this)"
proof (induction cfg sol i this rule: validate.induct)
  case (1 cfg sol i this)
  note unfold = validate.simps [of cfg sol i this]
  show ?case
  proof (cases "i < control_points cfg")
    case False
    then show ?thesis unfolding unfold by auto
  next
    case True
    show ?thesis
    proof (cases "sample_is_bad cfg sol i")
      case bad: True
      with True have "\<exists>j. i \<le> j \<and> j < control_points cfg \<and> sample_is_bad cfg sol j"
        by blast
      with True bad show ?thesis unfolding unfold by auto
    next
      case good: False
      have "(\<exists>j. i \<le> j \<and> j < control_points cfg \<and> sample_is_bad cfg sol j) =
            (\<exists>j. i + 1 \<le> j \<and> j < control_points cfg \<and> sample_is_bad cfg sol j)"
        (is "?A = ?B")
      proof
        assume ?A
        then obtain j where j: "i \<le> j" "j < control_points cfg" "sample_is_bad cfg sol j"
          by blast
        with good have "j \<noteq> i" by auto
        with j have "i + 1 \<le> j" by simp
        with j show ?B by blast
      next
        assume ?B
        then obtain j where j: "i + 1 \<le> j" "j < control_points cfg" "sample_is_bad cfg sol j"
          by blast
        then have "i \<le> j" by simp
        with j show ?A by blast
      qed
      then show ?thesis unfolding unfold using True good "1.IH" by simp
    qed
  qed
qed

lemma some_sample_bad_iff:
  assumes "0 < control_points cfg"
  shows "(\<exists>j. 0 \<le> j \<and> j < control_points cfg \<and> sample_is_bad cfg sol j) = classified_bad cfg sol"
  using assms
  by (auto simp add: classified_bad_def sample_is_bad_def list_ex_iff Let_def)

lemma extract_states_eq:
  "extract_states cfg sol i acc = acc @ map (extract_state cfg sol) [i..<control_points cfg]"
proof (induction cfg sol i acc rule: extract_states.induct)
  case (1 cfg sol i acc)
  note unfold = extract_states.simps [of cfg sol i acc]
  show ?case
  proof (cases "i < control_points cfg")
    case True
    with "1.IH" show ?thesis
      unfolding unfold by (simp add: upt_conv_Cons)
  next
    case False
    then show ?thesis unfolding unfold by simp
  qed
qed

lemma planned_trajectory_states:
  assumes "2 \<le> control_points cfg"
  shows "planned_trajectory cfg sol =
           Inr \<lparr>states = map (extract_state cfg sol) [0..<control_points cfg - 1]
                           @ [final_state cfg sol]\<rparr>"
proof -
  define n where "n = control_points cfg"
  define sts where "sts = map (extract_state cfg sol) [0..<n]"
  have n2: "2 \<le> n" using assms by (simp add: n_def)
  have len: "length sts = n" by (simp add: sts_def)
  have nth: "\<And>i. i < n \<Longrightarrow> sts ! i = extract_state cfg sol i" by (simp add: sts_def)
  have split: "[0..<n] = [0..<n - 1] @ [n - 1]"
    using n2 by (metis Suc_diff_1 less_le_trans pos2 upt_Suc_append zero_le)
  have sts_split: "sts = map (extract_state cfg sol) [0..<n - 1] @ [extract_state cfg sol (n - 1)]"
    unfolding sts_def by (subst split) simp
  have upd: "\<And>v. sts[n - 1 := v] = map (extract_state cfg sol) [0..<n - 1] @ [v]"
    by (subst sts_split) (simp add: list_update_append)
  have a: "(sts[n - 1 := v]) ! (n - 1) = v" for v using len n2 by simp
  have b: "(sts[n - 1 := v]) ! (n - 2) = extract_state cfg sol (n - 2)" for v
    using len n2 nth by simp
  have c: "(sts[n - 1 := v])[n - 1 := w] = sts[n - 1 := w]" for v w by simp
  have "planned_trajectory cfg sol =
          Inr \<lparr>states = sts[n - 1 := (extract_state cfg sol (n - 1))
                 \<lparr>yaw_rate := yaw_rate (extract_state cfg sol (n - 2)),
                  ax := ax (extract_state cfg sol (n - 2))\<rparr>]\<rparr>"
    using n2 len nth
    by (simp add: planned_trajectory_def extract_states_eq Let_def n_def [symmetric]
        sts_def [symmetric] a b c)
  then have "planned_trajectory cfg sol =
          Inr \<lparr>states = map (extract_state cfg sol) [0..<n - 1] @
                 [(extract_state cfg sol (n - 1))
                    \<lparr>yaw_rate := yaw_rate (extract_state cfg sol (n - 2)),
                     ax := ax (extract_state cfg sol (n - 2))\<rparr>]\<rparr>"
    by (simp only: upd)
  then show ?thesis
    by (simp only: final_state_def n_def)
qed

lemma extract_state_fields:
  "yaw_angle (extract_state cfg sol i) = get_optimal_states sol (i * state_size + index_of PSI)"
  "vx (extract_state cfg sol i) = get_optimal_states sol (i * state_size + index_of V)"
  "time (extract_state cfg sol i) = getTime sol i"
  by (simp_all add: extract_state_def Let_def)


lemma final_state_fields:
  "yaw_angle (final_state cfg sol) = yaw_angle (extract_state cfg sol (control_points cfg - 1))"
  "vx (final_state cfg sol) = vx (extract_state cfg sol (control_points cfg - 1))"
  "time (final_state cfg sol) = time (extract_state cfg sol (control_points cfg - 1))"
  "yaw_rate (final_state cfg sol) = yaw_rate (extract_state cfg sol (control_points cfg - 2))"
  "ax (final_state cfg sol) = ax (extract_state cfg sol (control_points cfg - 2))"
  by (simp_all add: final_state_def)



lemma planned_timestamps:
  assumes "2 \<le> control_points cfg" and "planned_trajectory cfg sol = Inr planned"
  shows "map time (states planned) = map (getTime sol) [0..<control_points cfg]"
proof -
  let ?n = "control_points cfg"
  have split: "[0..<?n] = [0..<?n - 1] @ [?n - 1]"
    using assms(1) by (metis Suc_diff_1 less_le_trans pos2 upt_Suc_append zero_le)
  have "states planned = map (extract_state cfg sol) [0..<?n - 1] @ [final_state cfg sol]"
    using assms planned_trajectory_states [OF assms(1), of sol] by auto
  then have "map time (states planned) = map (getTime sol) [0..<?n - 1] @ [getTime sol (?n - 1)]"
    by (simp add: final_state_fields extract_state_fields comp_def)
  then show ?thesis by (subst split) simp
qed

lemma planned_not_empty:
  assumes "2 \<le> control_points cfg" and "planned_trajectory cfg sol = Inr planned"
  shows "length (states planned) = control_points cfg" "states planned \<noteq> []"
  using assms planned_trajectory_states [OF assms(1), of sol] by auto

lemma accept_bad:
  assumes "2 \<le> control_points cfg" and "classified_bad cfg sol"
  shows "accept_or_fall_back cfg t0 t1 this sol =
           Inr (previous_trajectory this,
                this\<lparr>bad_condition := True,
                     bad_counter := (if 4 < bad_counter this then 0 else bad_counter this) + 1\<rparr>)"
proof -
  have pos: "0 < control_points cfg" using assms(1) by simp
  have bad: "\<exists>j. 0 \<le> j \<and> j < control_points cfg \<and> sample_is_bad cfg sol j"
    using some_sample_bad_iff [OF pos, of sol] assms(2) by simp
  show ?thesis
    unfolding accept_or_fall_back_def Let_def planned_trajectory_states [OF assms(1)] validate_eq
    using bad by simp
qed

lemma accept_good:
  assumes "2 \<le> control_points cfg" and "\<not> classified_bad cfg sol"
    and "planned_trajectory cfg sol = Inr planned"
  shows "accept_or_fall_back cfg t0 t1 this sol =
           Inr (planned,
                this\<lparr>bad_condition := False, bad_counter := 0,
                     previous_trajectory := planned\<rparr>)"
proof -
  have pos: "0 < control_points cfg" using assms(1) by simp
  have good: "\<not> (\<exists>j. 0 \<le> j \<and> j < control_points cfg \<and> sample_is_bad cfg sol j)"
    using some_sample_bad_iff [OF pos, of sol] assms(2) by simp
  show ?thesis
    unfolding accept_or_fall_back_def Let_def assms(3) validate_eq
    using good by auto
qed

lemma builder_keeps:
  assumes "setup_optimizer_parameters_using_route cfg pp clk this route cs = Inr (path, this1)"
  shows "previous_trajectory this1 = previous_trajectory this
       \<and> bad_counter this1 = bad_counter this
       \<and> bad_condition this1 = bad_condition this"
  using assms
  by (auto simp add: setup_optimizer_parameters_using_route_def Let_def
      split: if_splits sum.splits prod.splits bool.splits)

lemma idm_keeps:
  assumes "calculate_idm_velocity cfg pp this route cs m tp = Inr (v, this1)"
  shows "this1 = this\<lparr>distance_to_goal := goal_distance route cs\<rparr>"
  using assms
  by (auto simp add: calculate_idm_velocity_def Let_def split: sum.splits)

lemma velocity_keeps:
  assumes "setup_reference_velocity cfg pp this route cs m tp = Inr this1"
  shows "previous_trajectory this1 = previous_trajectory this
       \<and> bad_counter this1 = bad_counter this
       \<and> bad_condition this1 = bad_condition this
       \<and> route_x this1 = route_x this"
  using assms
  by (auto simp add: setup_reference_velocity_def Let_def
      split: sum.splits prod.splits option.splits dest!: idm_keeps)

lemma prepare_keeps:
  assumes "prepare_cycle cfg pp clk this route cs m tp = Inr (this1, found)"
  shows "previous_trajectory this1 = previous_trajectory this
       \<and> bad_counter this1 = bad_counter this
       \<and> bad_condition this1 = bad_condition this"
  using assms
  by (auto simp add: prepare_cycle_def setup_reference_route_def Let_def
      split: sum.splits prod.splits if_splits dest!: builder_keeps velocity_keeps)

section \<open>Properties of the kept samples\<close>

lemma apart_dless: "apart a b \<Longrightarrow> dless a b"
  by (cases a; cases b) (simp_all add: apart_def dsub_def)

lemma dless_trans: "dless a b \<Longrightarrow> dless b c \<Longrightarrow> dless a c"
  by (cases a; cases b; cases c) simp_all

lemma apart_trans: "apart a b \<Longrightarrow> apart b c \<Longrightarrow> apart a c"
  by (cases a; cases b; cases c) (simp_all add: apart_def dsub_def)

lemma downsample_kept:
  "\<exists>new. RouteToFollow.s (fst (downsample state_s bound previous_s lane acc)) =
            RouteToFollow.s (fst acc) @ new
        \<and> successively apart (previous_s # new)"
proof (induction lane arbitrary: previous_s acc)
  case Nil
  then show ?case by simp
next
  case (Cons sample rest)
  obtain sk point where sample: "sample = (sk, point)" by (cases sample)
  show ?case
  proof (cases "dless sk state_s")
    case True
    with Cons.IH [of previous_s acc] sample show ?thesis by simp
  next
    case behind: False
    show ?thesis
    proof (cases "dless bound (dsub sk state_s)")
      case True
      with behind sample show ?thesis by simp
    next
      case inside: False
      show ?thesis
      proof (cases "dless (Fin (75 / 100)) (dsub (dsub sk state_s) previous_s)")
        case False
        with behind inside Cons.IH [of previous_s acc] sample show ?thesis
          by (simp add: Let_def)
      next
        case keep: True
        let ?lp = "dsub sk state_s"
        let ?acc = "(fst acc\<lparr>RouteToFollow.s := RouteToFollow.s (fst acc) @ [?lp],
                             RouteToFollow.x := RouteToFollow.x (fst acc) @ [MapPoint.x point],
                             RouteToFollow.y := RouteToFollow.y (fst acc) @ [MapPoint.y point]\<rparr>,
                    snd acc @ [Fin 1])"
        from Cons.IH [of ?lp ?acc] obtain new where
          new: "RouteToFollow.s (fst (downsample state_s bound ?lp rest ?acc)) =
                  (RouteToFollow.s (fst acc) @ [?lp]) @ new"
          and chain: "successively apart (?lp # new)"
          by auto
        from keep have "apart previous_s ?lp" by (simp add: apart_def)
        with chain have "successively apart (previous_s # ?lp # new)" by simp
        moreover from new behind inside keep sample
        have "RouteToFollow.s (fst (downsample state_s bound previous_s (sample # rest) acc)) =
                RouteToFollow.s (fst acc) @ (?lp # new)"
          by (simp add: Let_def)
        ultimately show ?thesis by blast
      qed
    qed
  qed
qed

lemma kept_samples_chain: "successively apart (Fin 0 # kept_samples cfg route cs)"
  using downsample_kept [of "get_s route cs" "dmul (sim_time cfg) (max_forward_speed cfg)" "Fin 0"
      "center_lane route"
      "(\<lparr>RouteToFollow.s = [], RouteToFollow.x = [], RouteToFollow.y = [], psi = []\<rparr>, [])"]
  by (auto simp add: kept_samples_def)

lemma pinned_chain:
  assumes "successively apart (Fin 0 # kept)" and "3 \<le> length kept"
  shows "successively apart (kept[0 := Fin 0])"
    and "sorted_wrt dless (kept[0 := Fin 0])"
    and "hd (kept[0 := Fin 0]) = Fin 0"
proof -
  from assms(2) obtain a b rest where kept: "kept = a # b # rest"
    by (cases kept; cases "tl kept") auto
  with assms(1) have "apart (Fin 0) a" "apart a b" "successively apart (b # rest)" by simp_all
  then have "apart (Fin 0) b" using apart_trans by blast
  with \<open>successively apart (b # rest)\<close> kept
  show chain: "successively apart (kept[0 := Fin 0])" by simp
  have "successively dless (kept[0 := Fin 0])"
    by (rule successively_mono [OF chain]) (simp_all add: apart_dless)
  moreover have "transp dless" by (rule transpI) (rule dless_trans)
  ultimately show "sorted_wrt dless (kept[0 := Fin 0])"
    by (simp add: successively_conv_sorted_wrt)
  show "hd (kept[0 := Fin 0]) = Fin 0" using kept by simp
qed

text \<open>
  The heading loop pushes one heading per index, so a loop that runs to its end leaves
  \<open>n - 1\<close> headings, and the assignment to \<open>psi[n - 1]\<close> that follows it is outside the
  vector: the builder returns a reference path only from one of its early returns, never
  with a fitted heading spline.
\<close>

lemma heading_samples_complete:
  assumes "heading_samples dx dy n i acc = Inr (True, headings)" and "i < n"
  shows "length headings = length acc + (n - 1 - i)"
  using assms
proof (induction dx dy n i acc rule: heading_samples.induct)
  case (1 dx dy n i acc)
  note unfold = heading_samples.simps [of dx dy n i acc]
  show ?case
  proof (cases "0 < n \<and> i < n - 1")
    case False
    with "1.prems" show ?thesis unfolding unfold by auto
  next
    case True
    with "1.prems"(1) have ok: "\<not> length dx \<le> i"
      "\<not> (deq (dx ! i) (Fin 0) \<or> length dx < 1 \<or> length dy < 1)" "\<not> length dy \<le> i"
      and rest: "heading_samples dx dy n (i + 1) (acc @ [datan2 (dy ! i) (dx ! i)]) =
                   Inr (True, headings)"
      unfolding unfold by (auto split: if_splits)
    from True have "i + 1 < n" by arith
    with "1.IH" [OF True ok rest] True show ?thesis by simp
  qed
qed

lemma builder_heading_default:
  assumes "setup_optimizer_parameters_using_route cfg pp clk this route cs = Inr (path, this1)"
  shows "heading path = new_PiecewisePolynomial"
proof -
  have complete: "length headings = n - 1"
    if "heading_samples dx dy n 0 [] = Inr (True, headings)" and "3 \<le> n" for dx dy n headings
    using heading_samples_complete [OF that(1)] that(2) by simp
  show ?thesis
    using assms
    by (auto simp add: setup_optimizer_parameters_using_route_def Let_def
        new_route_to_piecewise_polynomial_def
        split: if_splits sum.splits prod.splits bool.splits dest!: complete)
qed

section \<open>The worked example, evaluated\<close>

lemmas example_defs =
  example_config_def example_collaborators_def example_route_def example_clock_def
  example_state_def example_point_def example_map_def example_solver_def
  new_route_to_piecewise_polynomial_def new_PiecewisePolynomial_def
  new_VehicleStateDynamic_def

lemmas north_defs =
  linear_collaborators_def linear_evaluation_def north_route_def north_point_def

text \<open>
  On the first example route the heading loop runs to its end, and the build ends in the
  assignment past the end of \<open>psi\<close>.
\<close>

lemma example_builder_faults:
  "setup_optimizer_parameters_using_route example_config example_collaborators example_clock
     this example_route (example_state t) = Inl UndefinedBehaviour"
  by (simp add: setup_optimizer_parameters_using_route_def example_defs Let_def dsub_def
      heading_samples.simps)

text \<open>
  On the north route the builder returns from inside the heading loop, at its first
  index.
\<close>

lemma north_builder:
  "setup_optimizer_parameters_using_route example_config linear_collaborators example_clock
     this north_route st =
   Inr (\<lparr>route_to_piecewise_polynomial.x = route_x (north_prepared this),
         route_to_piecewise_polynomial.y = route_y (north_prepared this),
         heading = new_PiecewisePolynomial\<rparr>,
        this\<lparr>route_to_follow := route_to_follow (north_prepared this)\<rparr>)"
  by (simp add: setup_optimizer_parameters_using_route_def example_defs north_defs Let_def
      dsub_def heading_samples.simps north_prepared_def upt_rec [of 0] upt_rec [of 1]
      upt_rec [of 2] upt_rec [of 3] upt_rec [of 4] upt_rec [of 5] upt_rec [of "Suc 0"])

lemma north_prepare:
  assumes "vx st = Fin 0"
  shows "prepare_cycle example_config linear_collaborators example_clock this north_route
           st example_map \<lparr>participants = []\<rparr> =
         Inr (north_prepared this, True)"
  unfolding prepare_cycle_def north_builder
  using assms
  by (simp add: setup_reference_route_def example_defs north_defs Let_def dsub_def
      setup_reference_velocity_def max_curvature_of_def curvature_velocity_def
      calculate_idm_velocity_def idm_velocity_from_def idm_gap_ratio_def s_star_def
      distance_for_idm_def goal_distance_def std_min_def std_max_def DBL_MAX_def
      curvature_samples.simps north_prepared_def upt_rec [of 0] upt_rec [of 1]
      upt_rec [of 2] upt_rec [of 3] upt_rec [of 4] upt_rec [of 5] upt_rec [of "Suc 0"])

lemma example_state_vx [simp]: "vx (example_state t) = Fin 0"
  by (simp add: example_state_def new_VehicleStateDynamic_def)

lemma north_solution:
  "solution example_config linear_collaborators this st =
     \<lparr>get_optimal_states = (\<lambda>k. time st),
      getTime = (\<lambda>i. dadd (time st) (dmul (Fin (real i)) (Fin (3 / 2)))),
      get_final_objective_function = Fin 0\<rparr>"
  by (simp add: solution_def build_ocp_def setup_constraints_def setup_objective_function_def
      setup_dynamic_model_def new_OptiNLC_OCP_def set_parameters_options_def example_defs
      north_defs)

lemma north_classified_bad:
  "classified_bad example_config (solution example_config linear_collaborators this (example_state t))
     = (1 < \<bar>t\<bar>)"
  unfolding north_solution
  by (auto simp add: classified_bad_def example_config_def example_state_def
      new_VehicleStateDynamic_def upt_rec [of 0] upt_rec [of 1] upt_rec [of 2]
      upt_rec [of "Suc 0"])

lemma north_prepared_keeps [simp]:
  "previous_trajectory (north_prepared this) = previous_trajectory this"
  "bad_counter (north_prepared this) = bad_counter this"
  "bad_condition (north_prepared this) = bad_condition this"
  by (simp_all add: north_prepared_def)

lemma north_prepared_again [simp]:
  "north_prepared (this\<lparr>bad_condition := b, bad_counter := c\<rparr>) =
     (north_prepared this)\<lparr>bad_condition := b, bad_counter := c\<rparr>"
  "north_prepared (north_prepared this) = north_prepared this"
  by (simp_all add: north_prepared_def)

lemma example_control_points: "2 \<le> control_points example_config"
  by (simp add: example_config_def)

lemma north_bad_cycle:
  "bad_cycle example_config linear_collaborators this (north_input (example_state 100))"
  by (simp add: bad_cycle_def north_input_def north_prepare north_classified_bad)

lemma north_bad_step:
  "plan_cycle example_config linear_collaborators this (north_input (example_state 100)) =
     Inr (previous_trajectory this,
          (north_prepared this)
            \<lparr>bad_condition := True,
             bad_counter := (if 4 < bad_counter this then 0 else bad_counter this) + 1\<rparr>)"
proof -
  have "classified_bad example_config
          (solution example_config linear_collaborators (north_prepared this) (example_state 100))"
    by (simp add: north_classified_bad)
  from accept_bad [OF example_control_points this]
  show ?thesis
    by (simp add: plan_cycle_def plan_trajectory_def north_input_def north_prepare)
qed

lemma example_kept_samples:
  "kept_samples example_config example_route (example_state t) =
     [Fin 1, Fin 2, Fin 3, Fin 4, Fin 5]"
  by (simp add: kept_samples_def example_defs dsub_def Let_def)

lemma north_kept_samples:
  "kept_samples example_config north_route st = [Fin 1, Fin 2, Fin 3, Fin 4, Fin 5]"
  by (simp add: kept_samples_def example_defs north_defs dsub_def Let_def)

text \<open>The first cycle of a new planner on the north route is accepted.\<close>

lemma example_planned:
  "planned_trajectory example_config
     (solution example_config linear_collaborators this (example_state 0)) = Inr example_stored"
  unfolding planned_trajectory_states [OF example_control_points] north_solution
  by (simp add: example_stored_def final_state_def extract_state_def Let_def dsub_def
      set_parameters_options_def state_size_def example_config_def example_state_def
      new_VehicleStateDynamic_def upt_rec [of 0] upt_rec [of 1] upt_rec [of "Suc 0"])

lemma north_good_step:
  "plan_cycle example_config linear_collaborators this (north_input (example_state 0)) =
     Inr (example_stored,
          (north_prepared this)
            \<lparr>bad_condition := False, bad_counter := 0, previous_trajectory := example_stored\<rparr>)"
proof -
  let ?sol = "solution example_config linear_collaborators (north_prepared this) (example_state 0)"
  have good: "\<not> classified_bad example_config ?sol"
    by (simp add: north_classified_bad)
  from accept_good [OF example_control_points good example_planned]
  show ?thesis
    by (simp add: plan_cycle_def plan_trajectory_def north_input_def north_prepare)
qed

lemma north_first_cycle:
  "plan_cycle example_config linear_collaborators new_planner (north_input (example_state 0)) =
     Inr (example_stored, north_accepted)"
  unfolding north_good_step
  by (simp add: north_accepted_def north_prepared_def new_planner_def)

lemma north_accepted_fields [simp]:
  "previous_trajectory north_accepted = example_stored"
  "bad_counter north_accepted = 0"
  by (simp_all add: north_accepted_def new_planner_def)

section \<open>Consecutive bad cycles\<close>

lemma bad_cycle_step:
  assumes "2 \<le> control_points cfg" and "bad_cycle cfg pp this inp"
  shows "\<exists>this'. plan_cycle cfg pp this inp = Inr (previous_trajectory this, this')
               \<and> previous_trajectory this' = previous_trajectory this
               \<and> bad_counter this' = (if 4 < bad_counter this then 0 else bad_counter this) + 1"
proof -
  from assms(2) obtain this1 where
    prep: "prepare_cycle cfg pp (cycle_clock inp) this (cycle_route inp) (cycle_state inp)
             (cycle_map inp) (cycle_participants inp) = Inr (this1, True)"
    and bad: "classified_bad cfg (solution cfg pp this1 (cycle_state inp))"
    by (auto simp add: bad_cycle_def split: sum.splits prod.splits bool.splits)
  from prepare_keeps [OF prep]
  have keep: "previous_trajectory this1 = previous_trajectory this"
             "bad_counter this1 = bad_counter this" by simp_all
  from accept_bad [OF assms(1) bad] keep
  show ?thesis
    by (simp add: plan_cycle_def plan_trajectory_def prep)
qed

lemma reset_mod:
  fixes c n :: int
  assumes "1 \<le> c" and "c \<le> 5"
  shows "((if 4 < c then 0 else c) + n) mod 5 = (c + n) mod 5"
proof (cases "4 < c")
  case True
  with assms have "c = 5" by simp
  then show ?thesis by simp
next
  case False
  then show ?thesis by simp
qed

lemma consecutive_bad_run:
  assumes "2 \<le> control_points cfg"
    and "consecutive_bad cfg pp this inps"
    and "1 \<le> bad_counter this \<or> inps = []" and "bad_counter this \<le> 5"
  shows "\<exists>trajectories this'.
           run_cycles cfg pp this inps = Inr (trajectories, this')
         \<and> trajectories = replicate (length inps) (previous_trajectory this)
         \<and> previous_trajectory this' = previous_trajectory this
         \<and> bad_counter this' =
             (if inps = [] then bad_counter this
              else (bad_counter this - 1 + int (length inps)) mod 5 + 1)"
  using assms(2-)
proof (induction inps arbitrary: this)
  case Nil
  then show ?case by simp
next
  case (Cons inp inps)
  from Cons.prems(2,3) have this_range: "1 \<le> bad_counter this" "bad_counter this \<le> 5"
    by simp_all
  from Cons.prems(1) have bad: "bad_cycle cfg pp this inp" by simp
  from bad_cycle_step [OF assms(1) bad] obtain this1 where
    step: "plan_cycle cfg pp this inp = Inr (previous_trajectory this, this1)"
    and prev: "previous_trajectory this1 = previous_trajectory this"
    and cnt: "bad_counter this1 = (if 4 < bad_counter this then 0 else bad_counter this) + 1"
    by blast
  from Cons.prems(1) step have rest: "consecutive_bad cfg pp this1 inps" by simp
  from Cons.prems(2,3) cnt have range: "1 \<le> bad_counter this1" "bad_counter this1 \<le> 5"
    by (auto split: if_splits)
  from Cons.IH [OF rest _ range(2)] range(1) obtain trajectories this' where
    run: "run_cycles cfg pp this1 inps = Inr (trajectories, this')"
    and all: "trajectories = replicate (length inps) (previous_trajectory this1)"
    and prev': "previous_trajectory this' = previous_trajectory this1"
    and cnt': "bad_counter this' =
                 (if inps = [] then bad_counter this1
                  else (bad_counter this1 - 1 + int (length inps)) mod 5 + 1)"
    by blast
  have "bad_counter this' = (bad_counter this - 1 + int (length (inp # inps))) mod 5 + 1"
  proof (cases "inps = []")
    case True
    with cnt' cnt have "bad_counter this' = (if 4 < bad_counter this then 0 else bad_counter this) + 1"
      by simp
    also have "(if 4 < bad_counter this then 0 else bad_counter this) = bad_counter this mod 5"
      using reset_mod [OF this_range, of 0] this_range by (auto split: if_splits)
    finally show ?thesis using True by simp
  next
    case False
    with cnt' have "bad_counter this' = (bad_counter this1 - 1 + int (length inps)) mod 5 + 1"
      by simp
    also have "bad_counter this1 - 1 + int (length inps) =
               (if 4 < bad_counter this then 0 else bad_counter this) + int (length inps)"
      using cnt by simp
    also have "\<dots> mod 5 = (bad_counter this + int (length inps)) mod 5"
      by (rule reset_mod [OF this_range])
    finally show ?thesis by (simp add: algebra_simps)
  qed
  with step run all prev prev' show ?case by simp
qed

lemmas bad_inputs_unfold =
  north_bad_step north_bad_cycle north_good_step

section \<open>Fallback after a bad solve\<close>

text \<open>
  Claim C1, as amended. In a planning cycle that found a route and whose solver result
  is classified bad, \<open>plan_trajectory\<close> returns the stored \<open>previous_trajectory\<close> and
  leaves it stored unchanged. The counter \<open>bad_counter\<close> ends one above its value after
  the reset that precedes the scan: one above its value at entry when that was at most 4,
  and at 1 when it was above 4.
\<close>

theorem bad_solve_returns_previous:
  assumes "2 \<le> control_points cfg"
    and "prepare_cycle cfg pp clk this route cs m tp = Inr (this1, True)"
    and "classified_bad cfg (solution cfg pp this1 cs)"
  shows "\<exists>this'. plan_trajectory cfg pp clk this route cs m tp =
                   Inr (previous_trajectory this, this')
               \<and> previous_trajectory this' = previous_trajectory this
               \<and> bad_counter this' = (if 4 < bad_counter this then 0 else bad_counter this) + 1"
proof -
  from prepare_keeps [OF assms(2)]
  have keep: "previous_trajectory this1 = previous_trajectory this"
             "bad_counter this1 = bad_counter this" by simp_all
  from accept_bad [OF assms(1) assms(3)] keep
  show ?thesis
    by (simp add: plan_trajectory_def assms(2))
qed

text \<open>
  The theorem on the worked example: the planner that has accepted a trajectory in its
  first cycle on the north route, and a vehicle state whose solve is bad. The stored
  trajectory of two samples is returned.
\<close>

theorem bad_solve_returns_previous_witness:
  "2 \<le> control_points example_config
   \<and> prepare_cycle example_config linear_collaborators example_clock north_accepted north_route
       (example_state 100) example_map \<lparr>participants = []\<rparr> =
       Inr (north_prepared north_accepted, True)
   \<and> classified_bad example_config
       (solution example_config linear_collaborators (north_prepared north_accepted)
          (example_state 100))
   \<and> length (states example_stored) = 2
   \<and> (\<exists>this'. plan_trajectory example_config linear_collaborators example_clock north_accepted
                 north_route (example_state 100) example_map \<lparr>participants = []\<rparr> =
                 Inr (example_stored, this')
             \<and> previous_trajectory this' = example_stored
             \<and> bad_counter this' = 1)"
proof -
  have a: "2 \<le> control_points example_config" by (rule example_control_points)
  have b: "prepare_cycle example_config linear_collaborators example_clock north_accepted
             north_route (example_state 100) example_map \<lparr>participants = []\<rparr> =
           Inr (north_prepared north_accepted, True)"
    by (rule north_prepare) simp
  have c: "classified_bad example_config
             (solution example_config linear_collaborators (north_prepared north_accepted)
                (example_state 100))"
    by (simp add: north_classified_bad)
  have d: "length (states example_stored) = 2" by (simp add: example_stored_def)
  from bad_solve_returns_previous [OF a b c] a b c d
  show ?thesis by simp
qed

text \<open>
  Claim C1 as stated does not hold: a new planner accepts its first cycle, after five
  consecutive bad cycles the counter is 5, and the sixth bad cycle leaves it at 1, not
  at 6.
\<close>

theorem bad_counter_not_incremented_counterexample:
  "\<exists>trajectories this5 this6.
     run_cycles example_config linear_collaborators new_planner
       [north_input (example_state 0),
        north_input (example_state 100), north_input (example_state 100),
        north_input (example_state 100), north_input (example_state 100),
        north_input (example_state 100)] = Inr (trajectories, this5)
     \<and> bad_cycle example_config linear_collaborators this5 (north_input (example_state 100))
     \<and> plan_cycle example_config linear_collaborators this5 (north_input (example_state 100)) =
         Inr (example_stored, this6)
     \<and> bad_counter this5 = 5
     \<and> bad_counter this6 = 1
     \<and> bad_counter this6 \<noteq> bad_counter this5 + 1"
  by (simp add: bad_inputs_unfold new_planner_def)

section \<open>Repeated bad solves\<close>

text \<open>
  Claim C2, as amended. From a counter at 0, after \<open>k \<ge> 1\<close> consecutive bad cycles
  \<open>bad_counter\<close> is \<open>(k - 1) mod 5 + 1\<close>: it is 5 after five cycles and 1 after six,
  the sixth cycle having reset it to 0 before its scan. The reset does not let a bad
  solution through: every one of the \<open>k\<close> cycles returns the stored
  \<open>previous_trajectory\<close>, and that trajectory is still stored afterwards.
\<close>

theorem consecutive_bad_solves_rejected:
  assumes "2 \<le> control_points cfg"
    and "bad_counter this = 0"
    and "consecutive_bad cfg pp this inps"
  shows "\<exists>trajectories this'.
           run_cycles cfg pp this inps = Inr (trajectories, this')
         \<and> trajectories = replicate (length inps) (previous_trajectory this)
         \<and> previous_trajectory this' = previous_trajectory this
         \<and> bad_counter this' =
             (if inps = [] then 0 else (int (length inps) - 1) mod 5 + 1)"
proof (cases inps)
  case Nil
  with assms(2) show ?thesis by simp
next
  case (Cons inp rest)
  with assms(3) have bad: "bad_cycle cfg pp this inp" by simp
  from bad_cycle_step [OF assms(1) bad] assms(2) obtain this1 where
    step: "plan_cycle cfg pp this inp = Inr (previous_trajectory this, this1)"
    and prev: "previous_trajectory this1 = previous_trajectory this"
    and cnt: "bad_counter this1 = 1"
    by auto
  from assms(3) Cons step have tail: "consecutive_bad cfg pp this1 rest" by simp
  from consecutive_bad_run [OF assms(1) tail] cnt obtain trajectories this' where
    run: "run_cycles cfg pp this1 rest = Inr (trajectories, this')"
    and all: "trajectories = replicate (length rest) (previous_trajectory this1)"
    and prev': "previous_trajectory this' = previous_trajectory this1"
    and cnt': "bad_counter this' =
                 (if rest = [] then bad_counter this1
                  else (bad_counter this1 - 1 + int (length rest)) mod 5 + 1)"
    by auto
  from cnt cnt' have "bad_counter this' = int (length rest) mod 5 + 1"
    by (cases "rest = []") simp_all
  with step run all prev prev' Cons show ?thesis by simp
qed

text \<open>
  The theorem on the worked example: six bad cycles of the planner that has accepted a
  trajectory in its first cycle; each returns that trajectory.
\<close>

theorem consecutive_bad_solves_rejected_witness:
  "2 \<le> control_points example_config
   \<and> bad_counter north_accepted = 0
   \<and> consecutive_bad example_config linear_collaborators north_accepted
       [north_input (example_state 100), north_input (example_state 100),
        north_input (example_state 100), north_input (example_state 100),
        north_input (example_state 100), north_input (example_state 100)]
   \<and> length (states example_stored) = 2
   \<and> (\<exists>this'. run_cycles example_config linear_collaborators north_accepted
                 [north_input (example_state 100), north_input (example_state 100),
                  north_input (example_state 100), north_input (example_state 100),
                  north_input (example_state 100), north_input (example_state 100)] =
                 Inr ([example_stored, example_stored, example_stored, example_stored,
                       example_stored, example_stored], this')
             \<and> previous_trajectory this' = example_stored
             \<and> bad_counter this' = 1)"
proof -
  let ?inps = "[north_input (example_state 100), north_input (example_state 100),
                north_input (example_state 100), north_input (example_state 100),
                north_input (example_state 100), north_input (example_state 100)]"
  have a: "2 \<le> control_points example_config" by (rule example_control_points)
  have b: "bad_counter north_accepted = 0" by simp
  have c: "consecutive_bad example_config linear_collaborators north_accepted ?inps"
    by (simp add: bad_inputs_unfold)
  have d: "length (states example_stored) = 2" by (simp add: example_stored_def)
  from consecutive_bad_solves_rejected [OF a b c] a b c d
  show ?thesis by simp
qed

text \<open>
  Claim C2 as stated does not hold: on the sixth consecutive bad cycle the planned
  trajectory, whose first timestamp is 100, is neither returned nor stored; the call
  returns the trajectory accepted before the bad cycles, whose first timestamp is 0, and
  that one is still stored.
\<close>

theorem sixth_bad_solution_not_accepted_counterexample:
  "\<exists>trajectories this6 planned.
     run_cycles example_config linear_collaborators north_accepted
       [north_input (example_state 100), north_input (example_state 100),
        north_input (example_state 100), north_input (example_state 100),
        north_input (example_state 100), north_input (example_state 100)] =
       Inr (trajectories, this6)
     \<and> consecutive_bad example_config linear_collaborators north_accepted
         [north_input (example_state 100), north_input (example_state 100),
          north_input (example_state 100), north_input (example_state 100),
          north_input (example_state 100), north_input (example_state 100)]
     \<and> planned_trajectory example_config
         (solution example_config linear_collaborators this6 (example_state 100)) = Inr planned
     \<and> map time (states planned) = [Fin 100, Fin (203 / 2)]
     \<and> trajectories ! 5 = example_stored
     \<and> map time (states example_stored) = [Fin 0, Fin (3 / 2)]
     \<and> trajectories ! 5 \<noteq> planned
     \<and> previous_trajectory this6 = example_stored
     \<and> previous_trajectory this6 \<noteq> planned"
proof -
  let ?sol = "\<lambda>this. solution example_config linear_collaborators this (example_state 100)"
  have cp: "control_points example_config = 2" by (simp add: example_config_def)
  have stored: "map time (states example_stored) = [Fin 0, Fin (3 / 2)]"
    by (simp add: example_stored_def new_VehicleStateDynamic_def)
  have planned: "\<exists>planned. planned_trajectory example_config (?sol this) = Inr planned
                  \<and> map time (states planned) = [Fin 100, Fin (203 / 2)]
                  \<and> planned \<noteq> example_stored" for this
  proof -
    from planned_trajectory_states [OF example_control_points, of "?sol this"] obtain planned
      where p: "planned_trajectory example_config (?sol this) = Inr planned" by blast
    from planned_timestamps [OF example_control_points p]
    have times: "map time (states planned) = [Fin 100, Fin (203 / 2)]"
      unfolding north_solution
      by (simp add: cp example_state_def upt_rec [of 0] upt_rec [of 1] upt_rec [of "Suc 0"])
    with stored have "planned \<noteq> example_stored" by auto
    with p times show ?thesis by (intro exI conjI)
  qed
  from planned [of "(north_prepared (north_prepared (north_prepared (north_prepared
        (north_prepared (north_prepared north_accepted))))))
        \<lparr>bad_condition := True, bad_counter := 1\<rparr>"]
  show ?thesis
    by (auto simp add: bad_inputs_unfold stored)
qed

section \<open>Empty trajectories\<close>

lemma prepare_found_iff:
  assumes "prepare_cycle cfg pp clk this route cs m tp = Inr (this1, found)"
  shows "found = (breaks (route_x this1) \<noteq> [])"
  using assms
  by (auto simp add: prepare_cycle_def Let_def
      split: sum.splits prod.splits if_splits dest!: velocity_keeps)

text \<open>
  Claim C3, as amended. The first part of a cycle finds a route exactly when \<open>route_x\<close>
  has breakpoints. Without a route \<open>plan_trajectory\<close> returns an empty trajectory and
  leaves \<open>previous_trajectory\<close> untouched. With a route (and at least two control
  points) the returned trajectory is empty exactly when the solve is classified bad and
  the stored \<open>previous_trajectory\<close> is empty; a fallback return is the stored
  \<open>previous_trajectory\<close>, whatever it holds.
\<close>

theorem empty_trajectory_cases:
  assumes "prepare_cycle cfg pp clk this route cs m tp = Inr (this1, found)"
    and "found \<longrightarrow> 2 \<le> control_points cfg"
  shows "found = (breaks (route_x this1) \<noteq> [])
       \<and> (\<exists>trajectory this'.
             plan_trajectory cfg pp clk this route cs m tp = Inr (trajectory, this')
           \<and> (if found
               then (states trajectory = []) =
                      (classified_bad cfg (solution cfg pp this1 cs)
                       \<and> states (previous_trajectory this) = [])
                  \<and> (classified_bad cfg (solution cfg pp this1 cs)
                       \<longrightarrow> trajectory = previous_trajectory this)
               else states trajectory = []
                  \<and> previous_trajectory this' = previous_trajectory this))"
proof (cases found)
  case False
  with assms(1) prepare_keeps [OF assms(1)] prepare_found_iff [OF assms(1)]
  show ?thesis
    by (simp add: plan_trajectory_def new_Trajectory_def)
next
  case True
  with assms(2) have cp: "2 \<le> control_points cfg" by simp
  from prepare_keeps [OF assms(1)]
  have keep: "previous_trajectory this1 = previous_trajectory this" by simp
  let ?sol = "solution cfg pp this1 cs"
  show ?thesis
  proof (cases "classified_bad cfg ?sol")
    case bad: True
    from accept_bad [OF cp bad] keep True assms(1) prepare_found_iff [OF assms(1)] bad
    show ?thesis
      by (simp add: plan_trajectory_def)
  next
    case good: False
    from planned_trajectory_states [OF cp, of ?sol] obtain planned where
      planned: "planned_trajectory cfg ?sol = Inr planned" by blast
    from planned_not_empty [OF cp planned] have "states planned \<noteq> []" by simp
    with accept_good [OF cp good planned] True assms(1) prepare_found_iff [OF assms(1)] good
    show ?thesis
      by (simp add: plan_trajectory_def)
  qed
qed

text \<open>
  The theorem on the worked example: the planner that has accepted a trajectory in its
  first cycle, the north route and a bad solve. The fallback is the stored trajectory of
  two samples.
\<close>

theorem empty_trajectory_cases_witness:
  "prepare_cycle example_config linear_collaborators example_clock north_accepted north_route
     (example_state 100) example_map \<lparr>participants = []\<rparr> =
     Inr (north_prepared north_accepted, True)
   \<and> 2 \<le> control_points example_config
   \<and> classified_bad example_config
       (solution example_config linear_collaborators (north_prepared north_accepted)
          (example_state 100))
   \<and> states (previous_trajectory north_accepted) \<noteq> []
   \<and> breaks (route_x (north_prepared north_accepted)) \<noteq> []
   \<and> (\<exists>this'.
         plan_trajectory example_config linear_collaborators example_clock north_accepted
           north_route (example_state 100) example_map \<lparr>participants = []\<rparr> =
           Inr (previous_trajectory north_accepted, this'))"
proof -
  have a: "prepare_cycle example_config linear_collaborators example_clock north_accepted
             north_route (example_state 100) example_map \<lparr>participants = []\<rparr> =
           Inr (north_prepared north_accepted, True)"
    by (rule north_prepare) simp
  have b: "True \<longrightarrow> 2 \<le> control_points example_config"
    using example_control_points by simp
  have c: "classified_bad example_config
             (solution example_config linear_collaborators (north_prepared north_accepted)
                (example_state 100))"
    by (simp add: north_classified_bad)
  have d: "states (previous_trajectory north_accepted) \<noteq> []"
    by (simp add: example_stored_def)
  from empty_trajectory_cases [OF a b] a c d example_control_points
  show ?thesis by auto
qed

text \<open>
  Claim C3 as stated does not hold: the first cycle of a new planner finds the north
  route (\<open>route_x\<close> has five breakpoints), its solve is bad, and the fallback that is
  returned is the empty trajectory.
\<close>

theorem empty_fallback_with_route_counterexample:
  "\<exists>this'.
     plan_trajectory example_config linear_collaborators example_clock new_planner
       north_route (example_state 100) example_map \<lparr>participants = []\<rparr> =
       Inr (new_Trajectory, this')
   \<and> states new_Trajectory = []
   \<and> breaks (route_x this') = [Fin 0, Fin 2, Fin 3, Fin 4, Fin 5]
   \<and> bad_condition this'"
  using north_bad_step [of new_planner]
  by (simp add: plan_cycle_def north_input_def new_planner_def new_Trajectory_def
      north_prepared_def)

section \<open>The reference velocity as a minimum\<close>

lemma std_min_minimum:
  assumes "a \<noteq> NaN" and "b \<noteq> NaN"
  shows "dle (std_min a b) a" and "dle (std_min a b) b"
    and "std_min a b = a \<or> std_min a b = b" and "std_min a b \<noteq> NaN"
  using assms by (cases a; cases b; auto simp add: std_min_def dle_def)+

lemma dle_trans: "dle a b \<Longrightarrow> dle b c \<Longrightarrow> dle a c"
  by (cases a; cases b; cases c) (auto simp add: dle_def)

lemma idm_velocity_not_NaN: "idm_velocity_from cfg route cs d \<noteq> NaN"
  by (auto simp add: idm_velocity_from_def Let_def std_max_def)

lemma curvature_velocity_floor:
  "\<not> dless (curvature_velocity cfg max_curvature) (minimum_velocity_in_curve cfg)"
  by (cases "dsqrt (ddiv (lateral_acceleration cfg) max_curvature)";
      cases "minimum_velocity_in_curve cfg")
     (auto simp add: curvature_velocity_def std_max_def)

lemma max_curvature_of_velocity [simp]:
  "max_curvature_of cfg pp (this\<lparr>reference_velocity := v\<rparr>) cs = max_curvature_of cfg pp this cs"
  by (simp add: max_curvature_of_def)

lemma calculate_idm_velocity_value:
  assumes "calculate_idm_velocity cfg pp this route cs m tp = Inr (v, this1)"
  shows "calculate_idm_velocity cfg pp this2 route cs m tp =
           Inr (v, this2\<lparr>distance_to_goal := goal_distance route cs\<rparr>)"
    and "v \<noteq> NaN"
  using assms
  by (auto simp add: calculate_idm_velocity_def Let_def idm_velocity_not_NaN split: sum.splits)

lemma min_chain3:
  assumes "a \<noteq> NaN" "b \<noteq> NaN" "c \<noteq> NaN"
  shows "minimum_of (std_min (std_min a b) c) [a, b, c]"
proof -
  let ?ab = "std_min a b"
  note ab = std_min_minimum [OF assms(1,2)]
  note abc = std_min_minimum [OF ab(4) assms(3)]
  have "dle (std_min ?ab c) a" using abc(1) ab(1) by (rule dle_trans)
  moreover have "dle (std_min ?ab c) b" using abc(1) ab(2) by (rule dle_trans)
  moreover have "std_min ?ab c = a \<or> std_min ?ab c = b \<or> std_min ?ab c = c"
    using abc(3) ab(3) by auto
  ultimately show ?thesis
    using abc(2) by (auto simp add: minimum_of_def)
qed

lemma min_chain4:
  assumes "a \<noteq> NaN" "b \<noteq> NaN" "c \<noteq> NaN" "d \<noteq> NaN"
  shows "minimum_of (std_min (std_min (std_min a b) c) d) [a, b, c, d]"
proof -
  let ?abc = "std_min (std_min a b) c"
  from min_chain3 [OF assms(1-3)]
  have m: "?abc = a \<or> ?abc = b \<or> ?abc = c" "dle ?abc a" "dle ?abc b" "dle ?abc c"
    by (auto simp add: minimum_of_def)
  from m(1) assms have nn: "?abc \<noteq> NaN" by auto
  note abcd = std_min_minimum [OF nn assms(4)]
  have "dle (std_min ?abc d) a" using abcd(1) m(2) by (rule dle_trans)
  moreover have "dle (std_min ?abc d) b" using abcd(1) m(3) by (rule dle_trans)
  moreover have "dle (std_min ?abc d) c" using abcd(1) m(4) by (rule dle_trans)
  moreover have "std_min ?abc d = a \<or> std_min ?abc d = b \<or> std_min ?abc d = c
               \<or> std_min ?abc d = d"
    using abcd(3) m(1) by auto
  ultimately show ?thesis
    using abcd(2) by (auto simp add: minimum_of_def)
qed

lemma north_max_curvature:
  "max_curvature_of example_config linear_collaborators (north_prepared this) st = Inr (Fin 0)"
  by (simp add: max_curvature_of_def example_defs north_defs north_prepared_def dsub_def
      curvature_samples.simps Let_def upt_rec [of 0] upt_rec [of 1] upt_rec [of 2]
      upt_rec [of 3] upt_rec [of 4] upt_rec [of 5] upt_rec [of "Suc 0"])

lemma north_idm_velocity:
  "calculate_idm_velocity example_config pp this north_route (example_state t) m
     \<lparr>participants = []\<rparr> =
   Inr (Fin (48 / 25), this\<lparr>distance_to_goal := Fin 5\<rparr>)"
  by (simp add: calculate_idm_velocity_def idm_velocity_from_def idm_gap_ratio_def s_star_def
      distance_for_idm_def goal_distance_def std_min_def std_max_def DBL_MAX_def example_defs
      north_defs dsub_def Let_def)

lemma north_reference_velocity:
  "setup_reference_velocity example_config linear_collaborators (north_prepared this)
     north_route (example_state t) example_map \<lparr>participants = []\<rparr> =
   Inr (north_prepared this)"
  by (simp add: setup_reference_velocity_def north_max_curvature north_idm_velocity)
     (simp add: example_defs north_prepared_def curvature_velocity_def std_min_def std_max_def)

lemma max_curvature_of_goal:
  "max_curvature_of cfg pp (this\<lparr>distance_to_goal := g\<rparr>) cs = max_curvature_of cfg pp this cs"
  by (simp add: max_curvature_of_def)

lemma north_max_curvature_stale:
  "max_curvature_of example_config linear_collaborators
     ((north_prepared this)\<lparr>reference_velocity := r, distance_to_goal := g\<rparr>) st = Inr (Fin 0)"
  by (simp only: max_curvature_of_goal max_curvature_of_velocity north_max_curvature)

lemma north_reference_velocity_stale:
  "setup_reference_velocity example_config linear_collaborators
     ((north_prepared this)\<lparr>reference_velocity := r, distance_to_goal := g\<rparr>)
     north_route (example_state t) example_map \<lparr>participants = []\<rparr> =
   Inr (north_prepared this)"
  unfolding setup_reference_velocity_def Let_def max_curvature_of_velocity
    north_max_curvature_stale north_idm_velocity
  by (simp add: example_defs north_prepared_def curvature_velocity_def std_min_def std_max_def)

lemma north_velocity_bounds:
  "velocity_bounds example_config (Fin 0) (Fin (48 / 25)) example_map (example_state t) =
     [Fin 5, PInf, Fin (48 / 25)]"
  by (simp add: velocity_bounds_def example_defs curvature_velocity_def std_max_def)

text \<open>
  Claim C4, as amended. When \<open>setup_reference_velocity\<close> runs without a fault and none
  of the computed bounds is NaN, the reference velocity it stores is the minimum of the
  bounds: it is one of the configured maximum velocity, the curvature-limited velocity,
  the car-following bound and (when a nearest map point exists) the map speed limit, and
  it is at most each of them. The curvature-limited velocity is never below the minimum
  curve velocity.
\<close>

theorem reference_velocity_is_minimum:
  assumes "setup_reference_velocity cfg pp this route cs m tp = Inr this'"
    and "max_curvature_of cfg pp this cs = Inr max_curvature"
    and "calculate_idm_velocity cfg pp this route cs m tp = Inr (idm_velocity, this_idm)"
    and "list_all (\<lambda>bound. bound \<noteq> NaN) (velocity_bounds cfg max_curvature idm_velocity m cs)"
  shows "minimum_of (reference_velocity this')
           (velocity_bounds cfg max_curvature idm_velocity m cs)
       \<and> \<not> dless (curvature_velocity cfg max_curvature) (minimum_velocity_in_curve cfg)"
proof -
  let ?this2 = "this\<lparr>reference_velocity :=
                      std_min (maximum_velocity cfg) (curvature_velocity cfg max_curvature)\<rparr>"
  note idm = calculate_idm_velocity_value(1) [OF assms(3), of ?this2]
    calculate_idm_velocity_value(2) [OF assms(3)]
  from assms(4) have nn: "maximum_velocity cfg \<noteq> NaN"
    "curvature_velocity cfg max_curvature \<noteq> NaN"
    by (simp_all add: velocity_bounds_def)
  show ?thesis
  proof (cases "get_nearest_point (quadtree m) cs DBL_MAX")
    case None
    with assms(1,2) idm(1)
    have "reference_velocity this' =
            std_min (std_min (maximum_velocity cfg) (curvature_velocity cfg max_curvature))
              idm_velocity"
      by (auto simp add: setup_reference_velocity_def Let_def)
    with min_chain3 [OF nn idm(2)] None curvature_velocity_floor show ?thesis
      by (simp add: velocity_bounds_def)
  next
    case (Some nearest)
    with assms(4) have limit: "get_lane_speed_limit m (parent_id nearest) \<noteq> NaN"
      by (simp add: velocity_bounds_def)
    from Some assms(1,2) idm(1)
    have "reference_velocity this' =
            std_min
              (std_min (std_min (maximum_velocity cfg) (curvature_velocity cfg max_curvature))
                 idm_velocity)
              (get_lane_speed_limit m (parent_id nearest))"
      by (auto simp add: setup_reference_velocity_def Let_def)
    with min_chain4 [OF nn idm(2) limit] Some curvature_velocity_floor show ?thesis
      by (simp add: velocity_bounds_def)
  qed
qed

text \<open>
  The theorem on the worked example: on the straight north route the curvature-limited
  velocity is infinite and the car-following bound is the least; the planner enters with
  a reference velocity and a distance to the goal of 0.
\<close>

theorem reference_velocity_is_minimum_witness:
  "setup_reference_velocity example_config linear_collaborators
     ((north_prepared new_planner)\<lparr>reference_velocity := Fin 0, distance_to_goal := Fin 0\<rparr>)
     north_route (example_state 0) example_map \<lparr>participants = []\<rparr> =
     Inr (north_prepared new_planner)
   \<and> max_curvature_of example_config linear_collaborators
       ((north_prepared new_planner)\<lparr>reference_velocity := Fin 0, distance_to_goal := Fin 0\<rparr>)
       (example_state 0) = Inr (Fin 0)
   \<and> calculate_idm_velocity example_config linear_collaborators
       ((north_prepared new_planner)\<lparr>reference_velocity := Fin 0, distance_to_goal := Fin 0\<rparr>)
       north_route (example_state 0) example_map \<lparr>participants = []\<rparr> =
       Inr (Fin (48 / 25),
            (north_prepared new_planner)\<lparr>reference_velocity := Fin 0, distance_to_goal := Fin 5\<rparr>)
   \<and> velocity_bounds example_config (Fin 0) (Fin (48 / 25)) example_map (example_state 0) =
       [Fin 5, PInf, Fin (48 / 25)]
   \<and> reference_velocity (north_prepared new_planner) = Fin (48 / 25)
   \<and> minimum_of (Fin (48 / 25)) [Fin 5, PInf, Fin (48 / 25)]"
proof -
  let ?p = "(north_prepared new_planner)\<lparr>reference_velocity := Fin 0, distance_to_goal := Fin 0\<rparr>"
  note a = north_reference_velocity_stale [where this = new_planner and r = "Fin 0" and g = "Fin 0" and t = 0]
  note b = north_max_curvature_stale [where this = new_planner and r = "Fin 0" and g = "Fin 0"
      and st = "example_state 0"]
  note c = north_idm_velocity [of linear_collaborators ?p 0 example_map]
  note d = north_velocity_bounds [of 0]
  have e: "list_all (\<lambda>bound. bound \<noteq> NaN)
             (velocity_bounds example_config (Fin 0) (Fin (48 / 25)) example_map
                (example_state 0))"
    by (simp add: d)
  have f: "reference_velocity (north_prepared new_planner) = Fin (48 / 25)"
    by (simp add: north_prepared_def)
  from reference_velocity_is_minimum [OF a b c e] a b c d f
  show ?thesis by simp
qed

text \<open>
  Claim C4 as stated does not hold for every input: when the map has a nearest point
  whose lane speed limit is NaN, \<open>std::min\<close> keeps the value it had, and the reference
  velocity is neither at most that bound nor the minimum of the bounds.
\<close>

theorem nan_speed_limit_counterexample:
  "setup_reference_velocity example_config linear_collaborators
     ((north_prepared new_planner)\<lparr>reference_velocity := Fin 0, distance_to_goal := Fin 0\<rparr>)
     north_route (example_state 0)
     (example_map\<lparr>quadtree := \<lparr>get_nearest_point = (\<lambda>st min_dist. Some (north_point 0))\<rparr>,
                  get_lane_speed_limit := (\<lambda>lane. NaN)\<rparr>)
     \<lparr>participants = []\<rparr> = Inr (north_prepared new_planner)
   \<and> reference_velocity (north_prepared new_planner) = Fin (48 / 25)
   \<and> max_curvature_of example_config linear_collaborators
       ((north_prepared new_planner)\<lparr>reference_velocity := Fin 0, distance_to_goal := Fin 0\<rparr>)
       (example_state 0) = Inr (Fin 0)
   \<and> calculate_idm_velocity example_config linear_collaborators
       ((north_prepared new_planner)\<lparr>reference_velocity := Fin 0, distance_to_goal := Fin 0\<rparr>)
       north_route (example_state 0)
       (example_map\<lparr>quadtree := \<lparr>get_nearest_point = (\<lambda>st min_dist. Some (north_point 0))\<rparr>,
                    get_lane_speed_limit := (\<lambda>lane. NaN)\<rparr>)
       \<lparr>participants = []\<rparr> =
       Inr (Fin (48 / 25),
            (north_prepared new_planner)\<lparr>reference_velocity := Fin 0, distance_to_goal := Fin 5\<rparr>)
   \<and> velocity_bounds example_config (Fin 0) (Fin (48 / 25))
       (example_map\<lparr>quadtree := \<lparr>get_nearest_point = (\<lambda>st min_dist. Some (north_point 0))\<rparr>,
                    get_lane_speed_limit := (\<lambda>lane. NaN)\<rparr>)
       (example_state 0) = [Fin 5, PInf, Fin (48 / 25), NaN]
   \<and> \<not> dle (Fin (48 / 25)) NaN
   \<and> \<not> minimum_of (Fin (48 / 25)) [Fin 5, PInf, Fin (48 / 25), NaN]"
proof -
  let ?m = "example_map\<lparr>quadtree := \<lparr>get_nearest_point = (\<lambda>st min_dist. Some (north_point 0))\<rparr>,
                         get_lane_speed_limit := (\<lambda>lane. NaN)\<rparr>"
  let ?p = "(north_prepared new_planner)\<lparr>reference_velocity := Fin 0, distance_to_goal := Fin 0\<rparr>"
  have run: "setup_reference_velocity example_config linear_collaborators ?p north_route
               (example_state 0) ?m \<lparr>participants = []\<rparr> = Inr (north_prepared new_planner)"
    unfolding setup_reference_velocity_def Let_def max_curvature_of_velocity
      north_max_curvature_stale north_idm_velocity
    by (simp add: example_defs north_prepared_def curvature_velocity_def std_min_def
        std_max_def)
  have bounds: "velocity_bounds example_config (Fin 0) (Fin (48 / 25)) ?m (example_state 0) =
                  [Fin 5, PInf, Fin (48 / 25), NaN]"
    by (simp add: velocity_bounds_def example_defs curvature_velocity_def std_max_def)
  have stored: "reference_velocity (north_prepared new_planner) = Fin (48 / 25)"
    by (simp add: north_prepared_def)
  from run bounds stored
    north_max_curvature_stale [where this = new_planner and r = "Fin 0" and g = "Fin 0"
      and st = "example_state 0"]
    north_idm_velocity [of linear_collaborators ?p 0 ?m]
  show ?thesis
    by (simp add: minimum_of_def dle_def)
qed

section \<open>Division by zero in the car-following bound\<close>

text \<open>
  Claim C5. \<open>calculate_idm_velocity\<close> divides \<open>s_star\<close> by \<open>distance_for_idm\<close> without
  testing the divisor, and a divisor of 0 is reachable: with the vehicle exactly at the
  end of the route, and with an in-lane participant at the vehicle's own arc length. In
  both cases \<open>distance_for_idm\<close> is 0, the quotient that the function computes is
  infinite, and the function returns (the clamp turns the result into 0).
\<close>

theorem idm_division_by_zero_reachable:
  "(\<exists>this'. calculate_idm_velocity example_config example_collaborators new_planner
               (example_route\<lparr>get_s := (\<lambda>st. Fin 5)\<rparr>) (example_state 0) example_map
               \<lparr>participants = []\<rparr> = Inr (Fin 0, this'))
   \<and> distance_for_idm (example_route\<lparr>get_s := (\<lambda>st. Fin 5)\<rparr>) (example_state 0) DBL_MAX = Fin 0
   \<and> idm_gap_ratio example_config (example_route\<lparr>get_s := (\<lambda>st. Fin 5)\<rparr>) (example_state 0)
       DBL_MAX = PInf
   \<and> nearest_participant example_collaborators example_route
       (example_map\<lparr>lanes := [0 \<mapsto> \<lparr>get_width = (\<lambda>a. Fin 2)\<rparr>]\<rparr>)
       (get_s example_route (example_state 0)) [(7, \<lparr>state = example_state 0\<rparr>)] DBL_MAX =
       Inr (Fin 0)
   \<and> distance_for_idm example_route (example_state 0) (Fin 0) = Fin 0
   \<and> idm_gap_ratio example_config example_route (example_state 0) (Fin 0) = PInf
   \<and> (\<exists>this'. calculate_idm_velocity example_config example_collaborators new_planner
               example_route (example_state 0)
               (example_map\<lparr>lanes := [0 \<mapsto> \<lparr>get_width = (\<lambda>a. Fin 2)\<rparr>]\<rparr>)
               \<lparr>participants = [(7, \<lparr>state = example_state 0\<rparr>)]\<rparr> = Inr (Fin 0, this'))"
proof -
  have end_distance:
    "distance_for_idm (example_route\<lparr>get_s := (\<lambda>st. Fin 5)\<rparr>) (example_state 0) DBL_MAX = Fin 0"
    by (simp add: distance_for_idm_def goal_distance_def std_min_def DBL_MAX_def dsub_def
        example_defs)
  have end_ratio:
    "idm_gap_ratio example_config (example_route\<lparr>get_s := (\<lambda>st. Fin 5)\<rparr>) (example_state 0)
       DBL_MAX = PInf"
    by (simp add: idm_gap_ratio_def s_star_def distance_for_idm_def goal_distance_def std_min_def
        DBL_MAX_def dsub_def example_defs Let_def)
  have end_velocity:
    "calculate_idm_velocity example_config example_collaborators new_planner
       (example_route\<lparr>get_s := (\<lambda>st. Fin 5)\<rparr>) (example_state 0) example_map
       \<lparr>participants = []\<rparr> = Inr (Fin 0, new_planner\<lparr>distance_to_goal := Fin 0\<rparr>)"
    by (simp add: calculate_idm_velocity_def idm_velocity_from_def end_ratio Let_def)
       (simp add: goal_distance_def std_min_def std_max_def dsub_def example_defs)
  have nearest:
    "nearest_participant example_collaborators example_route
       (example_map\<lparr>lanes := [0 \<mapsto> \<lparr>get_width = (\<lambda>a. Fin 2)\<rparr>]\<rparr>)
       (get_s example_route (example_state 0)) [(7, \<lparr>state = example_state 0\<rparr>)] DBL_MAX =
       Inr (Fin 0)"
    by (simp add: DBL_MAX_def dsub_def example_defs Let_def)
  have own_distance: "distance_for_idm example_route (example_state 0) (Fin 0) = Fin 0"
    by (simp add: distance_for_idm_def goal_distance_def std_min_def dsub_def example_defs)
  have own_ratio: "idm_gap_ratio example_config example_route (example_state 0) (Fin 0) = PInf"
    by (simp add: idm_gap_ratio_def s_star_def distance_for_idm_def goal_distance_def std_min_def
        dsub_def example_defs Let_def)
  have own_velocity:
    "calculate_idm_velocity example_config example_collaborators new_planner
       example_route (example_state 0)
       (example_map\<lparr>lanes := [0 \<mapsto> \<lparr>get_width = (\<lambda>a. Fin 2)\<rparr>]\<rparr>)
       \<lparr>participants = [(7, \<lparr>state = example_state 0\<rparr>)]\<rparr> =
       Inr (Fin 0, new_planner\<lparr>distance_to_goal := Fin 5\<rparr>)"
    using nearest
    by (simp add: calculate_idm_velocity_def idm_velocity_from_def own_ratio Let_def)
       (simp add: goal_distance_def std_min_def std_max_def dsub_def example_defs)
  from end_distance end_ratio end_velocity nearest own_distance own_ratio own_velocity
  show ?thesis by simp
qed

section \<open>Early rejection in the reference builder\<close>

text \<open>
  Claim C6, as amended. The reference builder returns the empty reference path, and
  leaves the planner as it was, whenever \<open>sim_time * max_forward_speed\<close> is below the
  configured \<open>min_distance_in_route\<close> or the route has no samples. The early rejection
  compares two configured lengths; the length of the route is not part of it.
\<close>

theorem early_rejection:
  assumes "dless (dmul (sim_time cfg) (max_forward_speed cfg)) (min_distance_in_route cfg)
         \<or> center_lane latest_route = []"
  shows "setup_optimizer_parameters_using_route cfg pp clk this latest_route current_state =
           Inr (new_route_to_piecewise_polynomial, this)
       \<and> breaks (route_to_piecewise_polynomial.x new_route_to_piecewise_polynomial) = []"
  using assms
  by (auto simp add: setup_optimizer_parameters_using_route_def Let_def
      new_route_to_piecewise_polynomial_def new_PiecewisePolynomial_def)

text \<open>The theorem on the example configuration with \<open>min_distance_in_route\<close> at 50.\<close>

theorem early_rejection_witness:
  "dless (dmul (sim_time (example_config\<lparr>min_distance_in_route := Fin 50\<rparr>))
            (max_forward_speed (example_config\<lparr>min_distance_in_route := Fin 50\<rparr>)))
     (min_distance_in_route (example_config\<lparr>min_distance_in_route := Fin 50\<rparr>))
   \<and> setup_optimizer_parameters_using_route (example_config\<lparr>min_distance_in_route := Fin 50\<rparr>)
       example_collaborators example_clock new_planner example_route (example_state 0) =
       Inr (new_route_to_piecewise_polynomial, new_planner)"
proof -
  have a: "dless (dmul (sim_time (example_config\<lparr>min_distance_in_route := Fin 50\<rparr>))
            (max_forward_speed (example_config\<lparr>min_distance_in_route := Fin 50\<rparr>)))
     (min_distance_in_route (example_config\<lparr>min_distance_in_route := Fin 50\<rparr>))"
    by (simp add: example_config_def)
  then have b: "dless (dmul (sim_time (example_config\<lparr>min_distance_in_route := Fin 50\<rparr>))
            (max_forward_speed (example_config\<lparr>min_distance_in_route := Fin 50\<rparr>)))
     (min_distance_in_route (example_config\<lparr>min_distance_in_route := Fin 50\<rparr>))
     \<or> center_lane example_route = []" by (rule disjI1)
  from early_rejection [OF b] a show ?thesis by simp
qed

text \<open>
  Claim C6 as stated does not hold: the north route has length 5, which is below
  \<open>sim_time * max_forward_speed = 30\<close>; the builder does not reject it, keeps five
  samples, fits the x- and y-splines and returns from inside its heading loop with a
  reference path of five breakpoints, and the planning cycle goes on with that route.
\<close>

theorem short_route_not_rejected_counterexample:
  "dless (get_length north_route)
     (dmul (sim_time example_config) (max_forward_speed example_config))
   \<and> (\<exists>path this'.
         setup_optimizer_parameters_using_route example_config linear_collaborators
           example_clock new_planner north_route (example_state 0) = Inr (path, this')
       \<and> breaks (route_to_piecewise_polynomial.x path) = [Fin 0, Fin 2, Fin 3, Fin 4, Fin 5]
       \<and> breaks (route_to_piecewise_polynomial.y path) = [Fin 0, Fin 2, Fin 3, Fin 4, Fin 5]
       \<and> path \<noteq> new_route_to_piecewise_polynomial)
   \<and> (\<exists>this1.
         prepare_cycle example_config linear_collaborators example_clock new_planner north_route
           (example_state 0) example_map \<lparr>participants = []\<rparr> = Inr (this1, True))"
proof -
  have short: "dless (get_length north_route)
                 (dmul (sim_time example_config) (max_forward_speed example_config))"
    by (simp add: north_route_def example_config_def)
  have differs: "\<lparr>route_to_piecewise_polynomial.x = route_x (north_prepared new_planner),
                   route_to_piecewise_polynomial.y = route_y (north_prepared new_planner),
                   heading = new_PiecewisePolynomial\<rparr> \<noteq> new_route_to_piecewise_polynomial"
    by (simp add: north_prepared_def new_route_to_piecewise_polynomial_def
        new_PiecewisePolynomial_def)
  from short differs north_builder [of new_planner "example_state 0"]
    north_prepare [of "example_state 0" new_planner]
  show ?thesis by (simp add: north_prepared_def)
qed

section \<open>The arc-length samples of the reference path\<close>

text \<open>
  Claim C7. For every route from which the builder keeps at least three samples, the
  arc-length sample sequence of the reference path (the kept samples with the first set
  to 0) is strictly increasing, each sample more than 0.75 above the one before it, and
  its first element is exactly 0; whenever the builder, past its early rejection, returns
  a reference path, this is the sequence it leaves in \<open>route_to_follow\<close> and has fitted
  the x- and y-splines over. With fewer than three kept samples the builder returns the
  empty reference path.
\<close>

theorem reference_samples_increasing:
  "(3 \<le> length (kept_samples cfg route cs) \<longrightarrow>
      sorted_wrt dless ((kept_samples cfg route cs)[0 := Fin 0])
    \<and> successively apart ((kept_samples cfg route cs)[0 := Fin 0])
    \<and> hd ((kept_samples cfg route cs)[0 := Fin 0]) = Fin 0)
   \<and> (\<forall>path this'.
         3 \<le> length (kept_samples cfg route cs)
       \<and> \<not> dless (dmul (sim_time cfg) (max_forward_speed cfg)) (min_distance_in_route cfg)
       \<and> center_lane route \<noteq> []
       \<and> setup_optimizer_parameters_using_route cfg pp clk this route cs = Inr (path, this')
       \<longrightarrow> RouteToFollow.s (route_to_follow this') = (kept_samples cfg route cs)[0 := Fin 0]
         \<and> (\<exists>values w. route_to_piecewise_polynomial.x path =
                CubicSplineSmoother pp ((kept_samples cfg route cs)[0 := Fin 0]) values w
                  (position_smoothing_factor cfg))
         \<and> (\<exists>values w. route_to_piecewise_polynomial.y path =
                CubicSplineSmoother pp ((kept_samples cfg route cs)[0 := Fin 0]) values w
                  (position_smoothing_factor cfg)))
   \<and> (length (kept_samples cfg route cs) < 3 \<longrightarrow>
        (\<exists>this'. setup_optimizer_parameters_using_route cfg pp clk this route cs =
                   Inr (new_route_to_piecewise_polynomial, this')))"
proof (intro conjI impI allI)
  assume "3 \<le> length (kept_samples cfg route cs)"
  from pinned_chain [OF kept_samples_chain this]
  show "sorted_wrt dless ((kept_samples cfg route cs)[0 := Fin 0])"
    and "successively apart ((kept_samples cfg route cs)[0 := Fin 0])"
    and "hd ((kept_samples cfg route cs)[0 := Fin 0]) = Fin 0"
    by simp_all
next
  fix path this'
  assume built: "3 \<le> length (kept_samples cfg route cs)
       \<and> \<not> dless (dmul (sim_time cfg) (max_forward_speed cfg)) (min_distance_in_route cfg)
       \<and> center_lane route \<noteq> []
       \<and> setup_optimizer_parameters_using_route cfg pp clk this route cs = Inr (path, this')"
  then show "RouteToFollow.s (route_to_follow this') = (kept_samples cfg route cs)[0 := Fin 0]"
    by (auto simp add: setup_optimizer_parameters_using_route_def Let_def kept_samples_def
        split: sum.splits prod.splits bool.splits if_splits)
  from built
  show "\<exists>values w. route_to_piecewise_polynomial.x path =
          CubicSplineSmoother pp ((kept_samples cfg route cs)[0 := Fin 0]) values w
            (position_smoothing_factor cfg)"
    by (auto simp add: setup_optimizer_parameters_using_route_def Let_def kept_samples_def
        split: sum.splits prod.splits bool.splits if_splits intro!: exI)
  from built
  show "\<exists>values w. route_to_piecewise_polynomial.y path =
          CubicSplineSmoother pp ((kept_samples cfg route cs)[0 := Fin 0]) values w
            (position_smoothing_factor cfg)"
    by (auto simp add: setup_optimizer_parameters_using_route_def Let_def kept_samples_def
        split: sum.splits prod.splits bool.splits if_splits intro!: exI)
next
  assume "length (kept_samples cfg route cs) < 3"
  then show "\<exists>this'. setup_optimizer_parameters_using_route cfg pp clk this route cs =
                      Inr (new_route_to_piecewise_polynomial, this')"
    by (simp add: setup_optimizer_parameters_using_route_def Let_def kept_samples_def)
qed

text \<open>
  The theorem on the worked example: five samples of the north route are kept and the
  builder returns a reference path.
\<close>

theorem reference_samples_increasing_witness:
  "3 \<le> length (kept_samples example_config north_route (example_state 0))
   \<and> \<not> dless (dmul (sim_time example_config) (max_forward_speed example_config))
          (min_distance_in_route example_config)
   \<and> center_lane north_route \<noteq> []
   \<and> setup_optimizer_parameters_using_route example_config linear_collaborators example_clock
       new_planner north_route (example_state 0) =
       Inr (\<lparr>route_to_piecewise_polynomial.x = route_x (north_prepared new_planner),
             route_to_piecewise_polynomial.y = route_y (north_prepared new_planner),
             heading = new_PiecewisePolynomial\<rparr>,
            new_planner\<lparr>route_to_follow := route_to_follow (north_prepared new_planner)\<rparr>)
   \<and> (kept_samples example_config north_route (example_state 0))[0 := Fin 0] =
       [Fin 0, Fin 2, Fin 3, Fin 4, Fin 5]
   \<and> RouteToFollow.s (route_to_follow (north_prepared new_planner)) =
       [Fin 0, Fin 2, Fin 3, Fin 4, Fin 5]
   \<and> sorted_wrt dless [Fin 0, Fin 2, Fin 3, Fin 4, Fin 5]
   \<and> successively apart [Fin 0, Fin 2, Fin 3, Fin 4, Fin 5]"
proof -
  have a: "3 \<le> length (kept_samples example_config north_route (example_state 0))"
    by (simp add: north_kept_samples)
  have b: "\<not> dless (dmul (sim_time example_config) (max_forward_speed example_config))
              (min_distance_in_route example_config)"
    by (simp add: example_config_def)
  have c: "center_lane north_route \<noteq> []" by (simp add: north_route_def)
  note d = north_builder [of new_planner "example_state 0"]
  have e: "(kept_samples example_config north_route (example_state 0))[0 := Fin 0] =
             [Fin 0, Fin 2, Fin 3, Fin 4, Fin 5]"
    by (simp add: north_kept_samples)
  have f: "RouteToFollow.s (route_to_follow (north_prepared new_planner)) =
             [Fin 0, Fin 2, Fin 3, Fin 4, Fin 5]"
    by (simp add: north_prepared_def)
  from reference_samples_increasing [of example_config north_route "example_state 0"
      linear_collaborators example_clock new_planner] a b c d e f
  show ?thesis by simp
qed

section \<open>The shape of a returned trajectory\<close>





section \<open>The dynamic model\<close>

lemma reciprocal_times:
  assumes "0 < c"
  shows "dmul (ddiv (Fin 1) (Fin c)) a = ddiv a (Fin c)"
  using assms by (cases a) (simp_all add: field_simps)

lemma velocity_tracking:
  "dmul (ddiv (Fin 1) (if b then Fin (25 / 10) else Fin (125 / 100))) a =
   ddiv a (if b then Fin (25 / 10) else Fin (125 / 100))"
  by (cases b) (simp_all add: reciprocal_times del: ddiv.simps dmul.simps)

lemma dmul_square_weight: "dmul a (dmul a w) = dmul (dmul a a) w"
proof (cases a)
  case (Fin r)
  then show ?thesis
    by (cases w) (auto simp add: zero_less_mult_iff mult_less_0_iff not_less)
next
  case PInf
  then show ?thesis by (cases w) auto
next
  case NInf
  then show ?thesis by (cases w) auto
next
  case NaN
  then show ?thesis by simp
qed

lemma sin_difference:
  "dadd (dmul (dneg (dsin h)) (dcos p)) (dmul (dcos h) (dsin p)) = dsin (dsub p h)"
  by (cases p; cases h) (simp_all add: dsub_def sin_diff)

lemma cos_difference:
  "dadd (dmul (dcos h) (dcos p)) (dmul (dsin h) (dsin p)) = dcos (dsub p h)"
  by (cases p; cases h) (simp_all add: dsub_def cos_diff)

lemma dynamic_model_refines:
  "dynamic_model cfg pp this st input = spec_derivative cfg pp this st input"
proof
  fix channel
  show "dynamic_model cfg pp this st input channel = spec_derivative cfg pp this st input channel"
  proof (cases channel)
    case V
    then show ?thesis
      by (simp add: dynamic_model_def spec_derivative_def spec_tau_def Let_def velocity_tracking
          del: ddiv.simps dmul.simps)
  next
    case L
    then show ?thesis
      by (simp add: dynamic_model_def spec_derivative_def Let_def weighted_square_def
          lateral_error_def heading_error_def reference_heading_at_def
          dmul_square_weight sin_difference cos_difference)
  qed (simp_all add: dynamic_model_def spec_derivative_def Let_def)
qed

text \<open>
  Claim C9. For every state and input, the derivative function that
  \<open>setup_dynamic_model\<close> installs in the problem, and that the problem handed to the
  solver still carries after the objective and the constraints are set up, is the one of
  the specification: the kinematic bicycle for position, heading, steering angle,
  steering rate and progress; the velocity derivative \<open>(reference_velocity - V) / tau\<close>
  with \<open>tau = 2.5\<close> when \<open>reference_velocity - V > 0\<close> and \<open>tau = 1.25\<close> otherwise; and
  the cost derivative, the sum of the weighted squares of the lateral error and of the
  heading error against the reference path at the state's progress. Values are exact
  reals extended by the infinities and NaN: rounding is not modelled, so the velocity and
  cost channels are equal as formulas (\<open>(1 / tau) * e = e / tau\<close>,
  \<open>e * (e * w) = e * e * w\<close>, and the addition theorems of sine and cosine), not
  bit for bit as rounded results.
\<close>

theorem dynamic_model_as_specified:
  "dynamicModel (setup_dynamic_model cfg pp this ocp) st input =
     spec_derivative cfg pp this st input
   \<and> dynamicModel (build_ocp cfg pp this) st input = spec_derivative cfg pp this st input
   \<and> dynamicModel (setup_dynamic_model cfg pp this ocp) st input V =
       ddiv (dsub (reference_velocity this) (st V))
         (if dless (Fin 0) (dsub (reference_velocity this) (st V))
          then Fin (5 / 2) else Fin (5 / 4))"
  by (simp add: setup_dynamic_model_def build_ocp_def setup_constraints_def
      setup_objective_function_def dynamic_model_refines spec_derivative_def spec_tau_def)

section \<open>The clock readings\<close>

text \<open>
  Claim C10. The clock readings taken during a planning cycle do not reach any output or
  state update: two calls of \<open>plan_trajectory\<close> that differ only in the clock readings
  return the same trajectory and leave the same planner (and fault alike).
\<close>

theorem clock_readings_unused:
  "plan_trajectory cfg pp clock1 this latest_route current_state latest_map traffic_participants =
   plan_trajectory cfg pp clock2 this latest_route current_state latest_map traffic_participants"
proof -
  have builder:
    "setup_optimizer_parameters_using_route cfg pp clock1 this latest_route current_state =
     setup_optimizer_parameters_using_route cfg pp clock2 this latest_route current_state"
    by (simp add: setup_optimizer_parameters_using_route_def Let_def
        split: sum.splits prod.splits bool.splits)
  have prepare:
    "prepare_cycle cfg pp clock1 this latest_route current_state latest_map traffic_participants =
     prepare_cycle cfg pp clock2 this latest_route current_state latest_map traffic_participants"
    by (simp only: prepare_cycle_def builder)
  have accept: "accept_or_fall_back cfg a b this1 sol = accept_or_fall_back cfg c d this1 sol"
    for a b c d this1 sol
    by (simp add: accept_or_fall_back_def Let_def split: sum.splits)
  show ?thesis
    unfolding plan_trajectory_def prepare
    by (simp add: accept [of "plan_start_time clock1" "plan_end_time clock1" _ _
          "plan_start_time clock2" "plan_end_time clock2"]
        split: sum.splits prod.splits bool.splits)
qed

end
